theory Spec2Isabelle
  imports Complex_Main "HOL-Library.Sublist"
begin

section \<open>Data model\<close>

text \<open>
  The program is \<^verbatim>\<open>perp_ratio_calculator.py\<close>. A position is one of the dictionaries
  that \<^verbatim>\<open>exchange.fetch_positions()\<close> returns; the code reads the keys
  \<^verbatim>\<open>symbol\<close>, \<^verbatim>\<open>side\<close>, \<^verbatim>\<open>notional\<close>, \<^verbatim>\<open>unrealizedPnl\<close> and \<^verbatim>\<open>contracts\<close>.
  A value that may be \<^verbatim>\<open>None\<close> is an option; \<^verbatim>\<open>unrealizedPnl\<close> is read with
  \<^verbatim>\<open>pos.get('unrealizedPnl', 0) or 0\<close>, so a missing key and \<^verbatim>\<open>None\<close> are the same
  case there. The side is kept as the string the code compares against
  \<^verbatim>\<open>'long'\<close> and \<^verbatim>\<open>'short'\<close>. Python floats are read as exact reals: rounding,
  overflow and NaN are outside this model.
\<close>

record position =
  symbol :: string
  side :: string
  notional :: "real option"
  unrealizedPnl :: "real option"
  contracts :: "real option"

text \<open>
  A \<^verbatim>\<open>PerpRatioCalculator\<close> object holds \<^verbatim>\<open>exchange_name\<close> and the client object
  \<^verbatim>\<open>exchange\<close>, which is opaque here.
\<close>

record 'h calculator =
  exchange_name :: string
  exchange :: 'h

text \<open>
  A Python dict keeps its keys in insertion order, and the code iterates over
  \<^verbatim>\<open>items()\<close> and \<^verbatim>\<open>values()\<close>, so a dict from symbols to numbers is an association
  list in insertion order.
\<close>

type_synonym pydict = "(string \<times> real) list"

definition dict_has :: "pydict \<Rightarrow> string \<Rightarrow> bool" where
  "dict_has d k = (k \<in> fst ` set d)"

text \<open>\<^verbatim>\<open>d[k] = v\<close>: overwrite in place, or append a new key at the end.\<close>

definition dict_set :: "pydict \<Rightarrow> string \<Rightarrow> real \<Rightarrow> pydict" where
  "dict_set d k v =
     (if dict_has d k then map (\<lambda>(k', x). if k' = k then (k', v) else (k', x)) d
      else d @ [(k, v)])"

text \<open>
  \<^verbatim>\<open>d[k] += v\<close> on a key that is present. On a missing key Python raises
  \<^verbatim>\<open>KeyError\<close>; the loop below only reaches this statement after the key has been
  inserted (lemma \<open>accumulate_keys\<close> shows both dicts always hold the same keys), and
  the model leaves the dict unchanged there.
\<close>

definition dict_iadd :: "pydict \<Rightarrow> string \<Rightarrow> real \<Rightarrow> pydict" where
  "dict_iadd d k v = map (\<lambda>(k', x). if k' = k then (k', x + v) else (k', x)) d"

datatype py_ratio = Ratio real | Infinity

record exposure_summary =
  raw_long_total :: real
  raw_short_total :: real
  effective_long_total :: real
  effective_short_total :: real
  long_short_ratio :: py_ratio
  symbol_positions :: pydict
  symbol_pnl :: pydict
  overall_pnl :: real

section \<open>The aggregation: \<^verbatim>\<open>calculate_long_short_ratio\<close>\<close>

definition excluded_tickers :: "string set" where
  "excluded_tickers =
     {''PAXGUSDT'', ''BTCDOMUSDT'', ''PAXG/USDT'', ''BTCDOM/USDT'',
      ''PAXG/USDT:USDT'', ''BTCDOM/USDT:USDT''}"

text \<open>
  The signed value of one position (lines 200 to 218); \<open>None\<close> is the \<^verbatim>\<open>continue\<close>
  of a side that is neither \<^verbatim>\<open>'long'\<close> nor \<^verbatim>\<open>'short'\<close>.
\<close>

definition notional_value :: "string \<Rightarrow> string \<Rightarrow> real \<Rightarrow> real \<Rightarrow> real option" where
  "notional_value ex sd n pnl =
     (if ex = ''bybit'' then
        (if sd = ''long'' then Some (\<bar>n\<bar> + pnl)
         else if sd = ''short'' then Some (- (\<bar>n\<bar> - pnl))
         else None)
      else
        (if sd = ''long'' then Some \<bar>n\<bar>
         else if sd = ''short'' then Some (- \<bar>n\<bar>)
         else None))"

text \<open>
  One pass of the loop body over a position, on the two dicts
  \<^verbatim>\<open>symbol_positions\<close> and \<^verbatim>\<open>symbol_pnl\<close> (lines 187 to 224).
\<close>

definition accumulate :: "string \<Rightarrow> position \<Rightarrow> pydict \<times> pydict \<Rightarrow> pydict \<times> pydict" where
  "accumulate ex pos acc =
     (case acc of (sp, pl) \<Rightarrow>
        if symbol pos \<in> excluded_tickers then (sp, pl)
        else (case notional pos of
          None \<Rightarrow> (sp, pl)
        | Some n \<Rightarrow>
            let unrealized_pnl = (case unrealizedPnl pos of None \<Rightarrow> 0 | Some u \<Rightarrow> u) in
            (case notional_value ex (side pos) n unrealized_pnl of
              None \<Rightarrow> (sp, pl)
            | Some v \<Rightarrow>
                let fresh = \<not> dict_has sp (symbol pos);
                    sp1 = (if fresh then dict_set sp (symbol pos) 0 else sp);
                    pl1 = (if fresh then dict_set pl (symbol pos) 0 else pl)
                in (dict_iadd sp1 (symbol pos) v, dict_iadd pl1 (symbol pos) unrealized_pnl))))"

text \<open>The two loops over \<^verbatim>\<open>symbol_positions.items()\<close> (lines 226 to 246).\<close>

definition raw_step :: "string \<times> real \<Rightarrow> real \<times> real \<Rightarrow> real \<times> real" where
  "raw_step item tot =
     (case item of (smb, net) \<Rightarrow> (case tot of (lng, sht) \<Rightarrow>
        if 0 < net then (lng + net, sht)
        else if net < 0 then (lng, sht + \<bar>net\<bar>)
        else (lng, sht)))"

definition weight :: "string \<Rightarrow> real" where
  "weight smb = (if prefix ''BTC'' smb then 0.5 else 1.0)"

definition effective_step :: "string \<times> real \<Rightarrow> real \<times> real \<Rightarrow> real \<times> real" where
  "effective_step item tot =
     (case item of (smb, net) \<Rightarrow> (case tot of (lng, sht) \<Rightarrow>
        if 0 < net then (lng + net * weight smb, sht)
        else if net < 0 then (lng, sht + \<bar>net\<bar> * weight smb)
        else (lng, sht)))"

definition ratio_of :: "real \<Rightarrow> real \<Rightarrow> py_ratio" where
  "ratio_of eff_long eff_short =
     (if 0 < eff_short then Ratio (eff_long / eff_short)
      else if 0 < eff_long then Infinity else Ratio 0)"

definition calculate_long_short_ratio :: "'h calculator \<Rightarrow> position list \<Rightarrow> exposure_summary" where
  "calculate_long_short_ratio self positions =
     (case fold (accumulate (exchange_name self)) positions ([], []) of (sp, pl) \<Rightarrow>
        (case fold raw_step sp (0, 0) of (raw_long, raw_short) \<Rightarrow>
        (case fold effective_step sp (0, 0) of (eff_long, eff_short) \<Rightarrow>
          \<lparr> raw_long_total = raw_long,
            raw_short_total = raw_short,
            effective_long_total = eff_long,
            effective_short_total = eff_short,
            long_short_ratio = ratio_of eff_long eff_short,
            symbol_positions = sp,
            symbol_pnl = pl,
            overall_pnl = sum_list (map snd pl) \<rparr>)))"

subsection \<open>Derived notions used to state the results\<close>

text \<open>
  What one position adds to its symbol: \<open>position_value\<close> is the value that reaches
  \<^verbatim>\<open>symbol_positions[symbol] += notional_value\<close>, or \<open>None\<close> when one of the three
  \<^verbatim>\<open>continue\<close> statements skips the position; \<open>position_pnl\<close> is
  \<^verbatim>\<open>pos.get('unrealizedPnl', 0) or 0\<close>. Lemma \<open>accumulate_alt\<close> relates them to the loop
  body.
\<close>

definition position_pnl :: "position \<Rightarrow> real" where
  "position_pnl pos = (case unrealizedPnl pos of None \<Rightarrow> 0 | Some u \<Rightarrow> u)"

definition position_value :: "string \<Rightarrow> position \<Rightarrow> real option" where
  "position_value ex pos =
     (if symbol pos \<in> excluded_tickers then None
      else case notional pos of None \<Rightarrow> None
           | Some n \<Rightarrow> notional_value ex (side pos) n (position_pnl pos))"

definition dict_accum :: "pydict \<Rightarrow> string \<Rightarrow> real \<Rightarrow> pydict" where
  "dict_accum d k v = dict_iadd (if dict_has d k then d else dict_set d k 0) k v"

text \<open>The values, and the PnLs, that the positions of a list add to symbol \<open>s\<close>, in order.\<close>

definition values_of :: "string \<Rightarrow> string \<Rightarrow> position list \<Rightarrow> real list" where
  "values_of ex s ps =
     List.map_filter (\<lambda>p. if symbol p = s then position_value ex p else None) ps"

definition pnls_of :: "string \<Rightarrow> string \<Rightarrow> position list \<Rightarrow> real list" where
  "pnls_of ex s ps =
     List.map_filter
       (\<lambda>p. if symbol p = s \<and> position_value ex p \<noteq> None then Some (position_pnl p) else None) ps"

section \<open>Symbol display: \<^verbatim>\<open>_clean_symbol\<close>\<close>

text \<open>\<^verbatim>\<open>sub in s\<close> on strings.\<close>

fun py_in :: "string \<Rightarrow> string \<Rightarrow> bool" where
  "py_in sub [] = (sub = [])"
| "py_in sub (c # cs) = (prefix sub (c # cs) \<or> py_in sub cs)"

text \<open>\<^verbatim>\<open>s.split(sep)[0]\<close>: the part of \<open>s\<close> before the first occurrence of \<open>sep\<close>.\<close>

fun split_first :: "string \<Rightarrow> string \<Rightarrow> string" where
  "split_first sep [] = []"
| "split_first sep (c # cs) = (if prefix sep (c # cs) then [] else c # split_first sep cs)"

definition clean_symbol :: "string \<Rightarrow> string" where
  "clean_symbol smb =
     (if py_in '':USDT'' smb then split_first '':USDT'' smb
      else if py_in '':USDC'' smb then split_first '':USDC'' smb
      else smb)"

section \<open>Python values and exceptions at the adapter and notifier boundary\<close>

text \<open>
  The balance object of the exchange client and the JSON body of an HTTP response are
  nested Python values. An exception is kept with the part of its class that the
  handlers of this program tell apart: \<^verbatim>\<open>requests.exceptions.HTTPError\<close> (with the
  status code and text of its response), any other \<^verbatim>\<open>RequestException\<close>, any other
  subclass of \<^verbatim>\<open>Exception\<close>, and a \<^verbatim>\<open>BaseException\<close> that is not an \<^verbatim>\<open>Exception\<close>
  (\<^verbatim>\<open>KeyboardInterrupt\<close>, \<^verbatim>\<open>SystemExit\<close>), which \<^verbatim>\<open>except Exception\<close> lets through.
\<close>

datatype py =
    PNone
  | PBool bool
  | PInt int
  | PFloat real
  | PStr string
  | PList "py list"
  | PDict "(string \<times> py) list"

datatype py_exception =
    HTTPError nat string
  | RequestException string
  | OtherException string
  | BaseOnly string

fun is_Exception :: "py_exception \<Rightarrow> bool" where
  "is_Exception (BaseOnly c) = False"
| "is_Exception e = True"

text \<open>Sequencing of statements that may raise.\<close>

definition and_then :: "py_exception + 'a \<Rightarrow> ('a \<Rightarrow> py_exception + 'b) \<Rightarrow> py_exception + 'b" where
  "and_then r f = (case r of Inl e \<Rightarrow> Inl e | Inr v \<Rightarrow> f v)"

text \<open>\<^verbatim>\<open>try: body  except Exception: return dflt\<close>.\<close>

definition except_Exception :: "py_exception + 'a \<Rightarrow> 'a \<Rightarrow> py_exception + 'a" where
  "except_Exception body dflt =
     (case body of Inr v \<Rightarrow> Inr v
      | Inl e \<Rightarrow> if is_Exception e then Inr dflt else Inl e)"

text \<open>\<^verbatim>\<open>obj.get(key, default)\<close>: only a dict has the method.\<close>

fun py_get :: "py \<Rightarrow> string \<Rightarrow> py \<Rightarrow> py_exception + py" where
  "py_get (PDict kvs) k d = Inr (case map_of kvs k of None \<Rightarrow> d | Some v \<Rightarrow> v)"
| "py_get obj k d = Inl (OtherException ''AttributeError'')"

text \<open>\<^verbatim>\<open>obj[0]\<close>. The keys of a dict are strings here, so \<open>0\<close> is never one of them.\<close>

fun py_index0 :: "py \<Rightarrow> py_exception + py" where
  "py_index0 (PList []) = Inl (OtherException ''IndexError'')"
| "py_index0 (PList (x # xs)) = Inr x"
| "py_index0 (PStr []) = Inl (OtherException ''IndexError'')"
| "py_index0 (PStr (c # cs)) = Inr (PStr [c])"
| "py_index0 (PDict kvs) = Inl (OtherException ''KeyError'')"
| "py_index0 obj = Inl (OtherException ''TypeError'')"

text \<open>The truth value of an object in \<^verbatim>\<open>x if v else y\<close>, \<^verbatim>\<open>if v and ...\<close>, \<^verbatim>\<open>not v\<close>.\<close>

fun truthy :: "py \<Rightarrow> bool" where
  "truthy PNone = False"
| "truthy (PBool b) = b"
| "truthy (PInt i) = (i \<noteq> 0)"
| "truthy (PFloat r) = (r \<noteq> 0)"
| "truthy (PStr s) = (s \<noteq> [])"
| "truthy (PList xs) = (xs \<noteq> [])"
| "truthy (PDict kvs) = (kvs \<noteq> [])"

text \<open>
  \<^verbatim>\<open>float(v)\<close>. Reading a number from a string is Python's own parser, taken as the
  parameter \<open>parse\<close> (\<open>None\<close> where \<^verbatim>\<open>float\<close> raises \<^verbatim>\<open>ValueError\<close>).
\<close>

fun py_float :: "(string \<Rightarrow> real option) \<Rightarrow> py \<Rightarrow> py_exception + real" where
  "py_float parse (PFloat r) = Inr r"
| "py_float parse (PInt i) = Inr (of_int i)"
| "py_float parse (PBool b) = Inr (if b then 1 else 0)"
| "py_float parse (PStr s) =
     (case parse s of None \<Rightarrow> Inl (OtherException ''ValueError'') | Some r \<Rightarrow> Inr r)"
| "py_float parse obj = Inl (OtherException ''TypeError'')"

section \<open>The aggregation as a method on objects\<close>

text \<open>
  The objects the method can reach: the calculator (its exchange name and a reference
  to its client), the position dicts, the list that holds references to them, the
  dicts the method creates, and the dict it returns, which holds the numbers and
  references to \<^verbatim>\<open>symbol_positions\<close> and \<^verbatim>\<open>symbol_pnl\<close>.
\<close>

datatype obj =
    OCalc string nat
  | OPos position
  | OList "nat list"
  | ODict pydict
  | OSummary real real real real py_ratio nat nat real

text \<open>
  The heap is the list of all objects; an address is an index into it. A new object
  goes to the end, and an assignment into an object replaces it at its address.
\<close>

type_synonym heap = "obj list"

definition lookup :: "heap \<Rightarrow> nat \<Rightarrow> obj option" where
  "lookup h a = (if a < length h then Some (h ! a) else None)"

definition alloc :: "heap \<Rightarrow> obj \<Rightarrow> nat \<times> heap" where
  "alloc h ob = (length h, h @ [ob])"

definition store_obj :: "heap \<Rightarrow> nat \<Rightarrow> obj \<Rightarrow> heap" where
  "store_obj h a ob = h[a := ob]"

text \<open>
  Reading an object through a name. A name that holds an object of another kind makes
  the operation raise, as it does in Python.
\<close>

definition get_dict :: "heap \<Rightarrow> nat \<Rightarrow> py_exception + pydict" where
  "get_dict h a = (case lookup h a of Some (ODict d) \<Rightarrow> Inr d | other \<Rightarrow> Inl (OtherException ''TypeError''))"

definition get_pos :: "heap \<Rightarrow> nat \<Rightarrow> py_exception + position" where
  "get_pos h a = (case lookup h a of Some (OPos p) \<Rightarrow> Inr p | other \<Rightarrow> Inl (OtherException ''TypeError''))"

definition get_list :: "heap \<Rightarrow> nat \<Rightarrow> py_exception + nat list" where
  "get_list h a = (case lookup h a of Some (OList as) \<Rightarrow> Inr as | other \<Rightarrow> Inl (OtherException ''TypeError''))"

definition get_exchange_name :: "heap \<Rightarrow> nat \<Rightarrow> py_exception + string" where
  "get_exchange_name h a =
     (case lookup h a of Some (OCalc name client) \<Rightarrow> Inr name | other \<Rightarrow> Inl (OtherException ''AttributeError''))"

text \<open>\<^verbatim>\<open>d[k] = v\<close> and \<^verbatim>\<open>d[k] += v\<close> on the dict object at an address.\<close>

definition dict_setitem :: "heap \<Rightarrow> nat \<Rightarrow> string \<Rightarrow> real \<Rightarrow> py_exception + heap" where
  "dict_setitem h a k v = and_then (get_dict h a) (\<lambda>d. Inr (store_obj h a (ODict (dict_set d k v))))"

definition dict_iadd_item :: "heap \<Rightarrow> nat \<Rightarrow> string \<Rightarrow> real \<Rightarrow> py_exception + heap" where
  "dict_iadd_item h a k v =
     and_then (get_dict h a) (\<lambda>d.
       if dict_has d k then Inr (store_obj h a (ODict (dict_iadd d k v)))
       else Inl (OtherException ''KeyError''))"

text \<open>
  The loop body (lines 188 to 224) as statements on the heap: \<open>self_a\<close>, \<open>sp_a\<close>,
  \<open>pl_a\<close> and \<open>pos_a\<close> are the objects that \<^verbatim>\<open>self\<close>, \<^verbatim>\<open>symbol_positions\<close>,
  \<^verbatim>\<open>symbol_pnl\<close> and \<^verbatim>\<open>pos\<close> name.
\<close>

definition accumulate_h :: "nat \<Rightarrow> nat \<Rightarrow> nat \<Rightarrow> nat \<Rightarrow> heap \<Rightarrow> py_exception + heap" where
  "accumulate_h self_a sp_a pl_a pos_a h =
     and_then (get_pos h pos_a) (\<lambda>pos.
       if symbol pos \<in> excluded_tickers then Inr h
       else (case notional pos of
         None \<Rightarrow> Inr h
       | Some n \<Rightarrow>
           let unrealized_pnl = (case unrealizedPnl pos of None \<Rightarrow> 0 | Some u \<Rightarrow> u) in
           and_then (get_exchange_name h self_a) (\<lambda>ex.
             (case notional_value ex (side pos) n unrealized_pnl of
               None \<Rightarrow> Inr h
             | Some v \<Rightarrow>
                 and_then (get_dict h sp_a) (\<lambda>sp.
                 and_then
                   (if \<not> dict_has sp (symbol pos) then
                      and_then (dict_setitem h sp_a (symbol pos) 0) (\<lambda>h1.
                        dict_setitem h1 pl_a (symbol pos) 0)
                    else Inr h) (\<lambda>h2.
                 and_then (dict_iadd_item h2 sp_a (symbol pos) v) (\<lambda>h3.
                   dict_iadd_item h3 pl_a (symbol pos) unrealized_pnl)))))))"

text \<open>\<^verbatim>\<open>for pos in positions\<close>, over the references the list holds.\<close>

fun loop_h :: "nat \<Rightarrow> nat \<Rightarrow> nat \<Rightarrow> nat list \<Rightarrow> heap \<Rightarrow> py_exception + heap" where
  "loop_h self_a sp_a pl_a [] h = Inr h"
| "loop_h self_a sp_a pl_a (pos_a # rest) h =
     and_then (accumulate_h self_a sp_a pl_a pos_a h) (loop_h self_a sp_a pl_a rest)"

text \<open>
  The whole method (lines 180 to 266): the two \<^verbatim>\<open>{}\<close> create new dict objects, the
  loop fills them, the totals are read from them, and the returned dict is a new object.
\<close>

definition build_summary :: "nat \<Rightarrow> nat \<Rightarrow> pydict \<Rightarrow> pydict \<Rightarrow> obj" where
  "build_summary sp_a pl_a sp pl =
     (case fold raw_step sp (0, 0) of (raw_long, raw_short) \<Rightarrow>
     (case fold effective_step sp (0, 0) of (eff_long, eff_short) \<Rightarrow>
        OSummary raw_long raw_short eff_long eff_short (ratio_of eff_long eff_short)
          sp_a pl_a (sum_list (map snd pl))))"

definition calculate_h :: "heap \<Rightarrow> nat \<Rightarrow> nat \<Rightarrow> py_exception + nat \<times> heap" where
  "calculate_h h self_a positions_a =
     (case alloc h (ODict []) of (sp_a, h1) \<Rightarrow>
     (case alloc h1 (ODict []) of (pl_a, h2) \<Rightarrow>
        and_then (get_list h2 positions_a) (\<lambda>addrs.
        and_then (loop_h self_a sp_a pl_a addrs h2) (\<lambda>h3.
        and_then (get_dict h3 sp_a) (\<lambda>sp.
        and_then (get_dict h3 pl_a) (\<lambda>pl.
          Inr (alloc h3 (build_summary sp_a pl_a sp pl))))))))"

text \<open>
  What the caller sees: the exchange name and the positions behind the two arguments,
  and the summary behind the returned reference.
\<close>

fun read_positions :: "heap \<Rightarrow> nat list \<Rightarrow> position list option" where
  "read_positions h [] = Some []"
| "read_positions h (a # as) =
     (case lookup h a of
        Some (OPos p) \<Rightarrow> map_option ((#) p) (read_positions h as)
      | other \<Rightarrow> None)"

definition read_inputs :: "heap \<Rightarrow> nat \<Rightarrow> nat \<Rightarrow> (string \<times> position list) option" where
  "read_inputs h self_a positions_a =
     (case lookup h self_a of
        Some (OCalc name client) \<Rightarrow>
          (case lookup h positions_a of
             Some (OList addrs) \<Rightarrow> map_option (Pair name) (read_positions h addrs)
           | other \<Rightarrow> None)
      | other \<Rightarrow> None)"

definition read_summary :: "heap \<Rightarrow> nat \<Rightarrow> exposure_summary option" where
  "read_summary h r =
     (case lookup h r of
        Some (OSummary raw_long raw_short eff_long eff_short ratio sp_a pl_a pnl) \<Rightarrow>
          (case (lookup h sp_a, lookup h pl_a) of
             (Some (ODict sp), Some (ODict pl)) \<Rightarrow>
               Some \<lparr> raw_long_total = raw_long, raw_short_total = raw_short,
                      effective_long_total = eff_long, effective_short_total = eff_short,
                      long_short_ratio = ratio, symbol_positions = sp, symbol_pnl = pl,
                      overall_pnl = pnl \<rparr>
           | other \<Rightarrow> None)
      | other \<Rightarrow> None)"

section \<open>The exchange adapter: \<^verbatim>\<open>fetch_positions\<close> and \<^verbatim>\<open>fetch_account_balance\<close>\<close>

text \<open>
  The client object \<^verbatim>\<open>self.exchange\<close> is the outcome of its two calls: each either
  raises or returns.
\<close>

record exchange_client =
  api_fetch_positions :: "py_exception + position list"
  api_fetch_balance :: "py_exception + py"

text \<open>
  \<^verbatim>\<open>[pos for pos in positions if pos['contracts'] > 0]\<close>. Comparing \<^verbatim>\<open>None\<close> with
  \<open>0\<close> raises \<^verbatim>\<open>TypeError\<close>.
\<close>

fun open_positions :: "position list \<Rightarrow> py_exception + position list" where
  "open_positions [] = Inr []"
| "open_positions (pos # rest) =
     (case contracts pos of
        None \<Rightarrow> Inl (OtherException ''TypeError'')
      | Some c \<Rightarrow> and_then (open_positions rest) (\<lambda>kept. Inr (if 0 < c then pos # kept else kept)))"

definition fetch_positions_body :: "exchange_client calculator \<Rightarrow> py_exception + position list" where
  "fetch_positions_body self = and_then (api_fetch_positions (exchange self)) open_positions"

definition fetch_positions :: "exchange_client calculator \<Rightarrow> py_exception + position list" where
  "fetch_positions self = except_Exception (fetch_positions_body self) []"

record balance_summary =
  total_wallet_balance :: real
  total_unrealized_pnl :: real
  total_margin_balance :: real

definition zero_balance :: balance_summary where
  "zero_balance = \<lparr> total_wallet_balance = 0, total_unrealized_pnl = 0, total_margin_balance = 0 \<rparr>"

text \<open>\<^verbatim>\<open>float(v) if v else 0\<close>.\<close>

definition float_or_zero :: "(string \<Rightarrow> real option) \<Rightarrow> py \<Rightarrow> py_exception + real" where
  "float_or_zero parse v = (if truthy v then py_float parse v else Inr 0)"

definition binance_balance :: "(string \<Rightarrow> real option) \<Rightarrow> py \<Rightarrow> py_exception + balance_summary" where
  "binance_balance parse balance =
     and_then (and_then (py_get balance ''info'' (PDict [])) (\<lambda>i. py_get i ''totalWalletBalance'' (PInt 0)))
       (\<lambda>wallet.
     and_then (and_then (py_get balance ''info'' (PDict [])) (\<lambda>i. py_get i ''totalUnrealizedProfit'' (PInt 0)))
       (\<lambda>pnl.
     and_then (and_then (py_get balance ''info'' (PDict [])) (\<lambda>i. py_get i ''totalMarginBalance'' (PInt 0)))
       (\<lambda>margin.
     and_then (float_or_zero parse wallet) (\<lambda>w.
     and_then (float_or_zero parse pnl) (\<lambda>u.
     and_then (float_or_zero parse margin) (\<lambda>m.
       Inr \<lparr> total_wallet_balance = w, total_unrealized_pnl = u, total_margin_balance = m \<rparr>))))))"

text \<open>
  \<^verbatim>\<open>balance.get('info', {}).get('result', {}).get('list', [{}])[0].get(key, 0)\<close>.
\<close>

definition bybit_field :: "py \<Rightarrow> string \<Rightarrow> py_exception + py" where
  "bybit_field balance key =
     and_then (py_get balance ''info'' (PDict [])) (\<lambda>i.
     and_then (py_get i ''result'' (PDict [])) (\<lambda>r.
     and_then (py_get r ''list'' (PList [PDict []])) (\<lambda>l.
     and_then (py_index0 l) (\<lambda>first. py_get first key (PInt 0)))))"

definition bybit_balance :: "(string \<Rightarrow> real option) \<Rightarrow> py \<Rightarrow> py_exception + balance_summary" where
  "bybit_balance parse balance =
     and_then (bybit_field balance ''totalEquity'') (\<lambda>equity.
     and_then (bybit_field balance ''totalWalletBalance'') (\<lambda>wallet.
     and_then (bybit_field balance ''totalPerpUPL'') (\<lambda>pnl.
     and_then (float_or_zero parse wallet) (\<lambda>w.
     and_then (float_or_zero parse pnl) (\<lambda>u.
     and_then (float_or_zero parse equity) (\<lambda>m.
       Inr \<lparr> total_wallet_balance = w, total_unrealized_pnl = u, total_margin_balance = m \<rparr>))))))"

text \<open>
  The loop over the entries of Bitget's balance list; \<open>Some\<close> is the \<^verbatim>\<open>return\<close> inside
  the loop, \<open>None\<close> the end of the loop.
\<close>

fun bitget_scan :: "(string \<Rightarrow> real option) \<Rightarrow> py list \<Rightarrow> py_exception + balance_summary option" where
  "bitget_scan parse [] = Inr None"
| "bitget_scan parse (asset_balance # rest) =
     and_then (py_get asset_balance ''marginCoin'' PNone) (\<lambda>coin.
       if coin = PStr ''USDT'' then
         and_then (and_then (py_get asset_balance ''available'' (PInt 0)) (py_float parse)) (\<lambda>available.
         and_then (and_then (py_get asset_balance ''locked'' (PInt 0)) (py_float parse)) (\<lambda>locked.
         and_then (and_then (py_get asset_balance ''unrealizedPL'' (PInt 0)) (py_float parse)) (\<lambda>u.
         and_then (and_then (py_get asset_balance ''accountEquity'' (PFloat (available + locked)))
                     (py_float parse)) (\<lambda>m.
           Inr (Some \<lparr> total_wallet_balance = available + locked,
                       total_unrealized_pnl = u,
                       total_margin_balance = m \<rparr>)))))
       else bitget_scan parse rest)"

text \<open>
  The inner \<^verbatim>\<open>try\<close> of the Bitget branch. Its bare \<^verbatim>\<open>except: pass\<close> catches
  everything, and the zero-filled dict is returned after it.
\<close>

definition bitget_try :: "(string \<Rightarrow> real option) \<Rightarrow> py \<Rightarrow> py_exception + balance_summary option" where
  "bitget_try parse balance =
     and_then (py_get balance ''info'' (PList [])) (\<lambda>balance_info.
       case balance_info of
         PList entries \<Rightarrow> (if entries \<noteq> [] \<and> 0 < length entries then bitget_scan parse entries else Inr None)
       | other \<Rightarrow> Inr None)"

definition bitget_balance :: "(string \<Rightarrow> real option) \<Rightarrow> py \<Rightarrow> py_exception + balance_summary" where
  "bitget_balance parse balance =
     (case bitget_try parse balance of
        Inr (Some found) \<Rightarrow> Inr found
      | Inr None \<Rightarrow> Inr zero_balance
      | Inl e \<Rightarrow> Inr zero_balance)"

definition extract_balance ::
  "(string \<Rightarrow> real option) \<Rightarrow> string \<Rightarrow> py \<Rightarrow> py_exception + balance_summary" where
  "extract_balance parse ex balance =
     (if ex = ''binance'' then binance_balance parse balance
      else if ex = ''bybit'' then bybit_balance parse balance
      else if ex = ''bitget'' then bitget_balance parse balance
      else Inr zero_balance)"

definition fetch_account_balance_body ::
  "(string \<Rightarrow> real option) \<Rightarrow> exchange_client calculator \<Rightarrow> py_exception + balance_summary" where
  "fetch_account_balance_body parse self =
     and_then (api_fetch_balance (exchange self)) (extract_balance parse (exchange_name self))"

definition fetch_account_balance ::
  "(string \<Rightarrow> real option) \<Rightarrow> exchange_client calculator \<Rightarrow> py_exception + balance_summary" where
  "fetch_account_balance parse self =
     except_Exception (fetch_account_balance_body parse self) zero_balance"

section \<open>The notifier: \<^verbatim>\<open>send_telegram_message\<close>\<close>

text \<open>
  What \<^verbatim>\<open>requests.post\<close> hands back: the status code, the text of the body, and the
  body as JSON (\<open>None\<close> where \<^verbatim>\<open>response.json()\<close> raises because the body is not
  JSON).
\<close>

record response =
  status_code :: nat
  body_text :: string
  body_json :: "py option"

text \<open>
  The network is the outcome of the first and of the second \<^verbatim>\<open>requests.post\<close> call:
  each raises or returns a response. What the function does to the world is a trace
  of events: the POST requests with their text, the sleeps with their seconds, and
  the log records.
\<close>

type_synonym network = "nat \<Rightarrow> py_exception + response"

datatype event =
    Post string
  | Sleep int
  | LogInfo
  | LogWarning
  | LogError

type_synonym 'a traced = "event list \<times> (py_exception + 'a)"

text \<open>\<^verbatim>\<open>response.raise_for_status()\<close>: a 4xx or 5xx status raises \<^verbatim>\<open>HTTPError\<close>.\<close>

definition raise_for_status :: "response \<Rightarrow> py_exception + unit" where
  "raise_for_status r =
     (if 400 \<le> status_code r \<and> status_code r < 600
      then Inl (HTTPError (status_code r) (body_text r)) else Inr ())"

definition response_json :: "response \<Rightarrow> py_exception + py" where
  "response_json r =
     (case body_json r of None \<Rightarrow> Inl (RequestException ''JSONDecodeError'') | Some j \<Rightarrow> Inr j)"

text \<open>
  \<^verbatim>\<open>requests.post(...)\<close>, \<^verbatim>\<open>raise_for_status()\<close> and \<^verbatim>\<open>json()\<close> for call number \<open>i\<close>.
\<close>

definition post_json :: "network \<Rightarrow> nat \<Rightarrow> py_exception + py" where
  "post_json net i =
     and_then (net i) (\<lambda>r. and_then (raise_for_status r) (\<lambda>u. response_json r))"

text \<open>\<^verbatim>\<open>v == 429\<close>.\<close>

fun py_eq_int :: "py \<Rightarrow> int \<Rightarrow> bool" where
  "py_eq_int (PInt i) n = (i = n)"
| "py_eq_int (PFloat r) n = (r = of_int n)"
| "py_eq_int (PBool b) n = ((if b then 1 else 0) = n)"
| "py_eq_int obj n = False"

text \<open>
  \<^verbatim>\<open>retry_after and isinstance(retry_after, int) and retry_after > 0\<close>, with the
  number of seconds when it holds. A \<^verbatim>\<open>bool\<close> is an \<^verbatim>\<open>int\<close> in Python.
\<close>

fun valid_retry_after :: "py \<Rightarrow> int option" where
  "valid_retry_after (PInt i) = (if i \<noteq> 0 \<and> 0 < i then Some i else None)"
| "valid_retry_after (PBool b) = (if b then Some 1 else None)"
| "valid_retry_after obj = None"

text \<open>The retry (lines 38 to 47), after the rate limit was seen.\<close>

definition retry_once :: "network \<Rightarrow> string \<Rightarrow> int \<Rightarrow> unit traced" where
  "retry_once net message retry_after =
     (case post_json net 1 of
        Inl e \<Rightarrow> ([LogWarning, Sleep retry_after, Post message], Inl e)
      | Inr response_retry_json \<Rightarrow>
          (case py_get response_retry_json ''ok'' PNone of
             Inl e \<Rightarrow> ([LogWarning, Sleep retry_after, Post message, LogInfo], Inl e)
           | Inr ok \<Rightarrow>
               ([LogWarning, Sleep retry_after, Post message, LogInfo,
                 (if truthy ok then LogInfo else LogError)], Inr ())))"

text \<open>The branch \<^verbatim>\<open>if not response_json.get("ok")\<close> (lines 33 to 49).\<close>

definition not_ok :: "network \<Rightarrow> string \<Rightarrow> py \<Rightarrow> unit traced" where
  "not_ok net message js =
     (case py_get js ''error_code'' PNone of
        Inl e \<Rightarrow> ([], Inl e)
      | Inr code \<Rightarrow>
          if py_eq_int code 429 then
            (case and_then (py_get js ''parameters'' (PDict [])) (\<lambda>ps. py_get ps ''retry_after'' PNone) of
               Inl e \<Rightarrow> ([LogError], Inl e)
             | Inr retry_after \<Rightarrow>
                 (case valid_retry_after retry_after of
                    Some n \<Rightarrow> (case retry_once net message n of (tr, r) \<Rightarrow> (LogError # tr, r))
                  | None \<Rightarrow> ([LogError, LogWarning], Inr ())))
          else ([LogError], Inr ()))"

text \<open>The body of the \<^verbatim>\<open>try\<close> (lines 20 to 51).\<close>

definition send_body :: "network \<Rightarrow> string \<Rightarrow> unit traced" where
  "send_body net message =
     (case post_json net 0 of
        Inl e \<Rightarrow> ([Post message], Inl e)
      | Inr js \<Rightarrow>
          (case py_get js ''ok'' PNone of
             Inl e \<Rightarrow> ([Post message, LogInfo], Inl e)
           | Inr ok \<Rightarrow>
               if \<not> truthy ok then
                 (case not_ok net message js of (tr, r) \<Rightarrow> ([Post message, LogInfo] @ tr, r))
               else ([Post message, LogInfo, LogInfo], Inr ())))"

text \<open>
  The three handlers: each logs an error and the function returns. An exception
  outside \<^verbatim>\<open>Exception\<close> passes through.
\<close>

definition send_telegram_message :: "network \<Rightarrow> string \<Rightarrow> unit traced" where
  "send_telegram_message net message =
     (case send_body net message of
        (tr, Inr u) \<Rightarrow> (tr, Inr u)
      | (tr, Inl e) \<Rightarrow>
          (case e of
             HTTPError code txt \<Rightarrow> (tr @ [LogError], Inr ())
           | RequestException c \<Rightarrow> (tr @ [LogError], Inr ())
           | OtherException c \<Rightarrow> (tr @ [LogError], Inr ())
           | BaseOnly c \<Rightarrow> (tr, Inl e)))"

text \<open>How often a trace posts, and how long it sleeps.\<close>

definition posts :: "event list \<Rightarrow> nat" where
  "posts tr = length (filter (\<lambda>ev. case ev of Post m \<Rightarrow> True | other \<Rightarrow> False) tr)"

definition sleeps :: "event list \<Rightarrow> int list" where
  "sleeps tr = List.map_filter (\<lambda>ev. case ev of Sleep n \<Rightarrow> Some n | other \<Rightarrow> None) tr"

section \<open>Derived readings of a result, and sample inputs\<close>

text \<open>\<^verbatim>\<open>results['symbol_positions'].get(symbol, 0)\<close>: the net notional of a symbol.\<close>

definition net_notional :: "exposure_summary \<Rightarrow> string \<Rightarrow> real" where
  "net_notional r s = (case map_of (symbol_positions r) s of None \<Rightarrow> 0 | Some x \<Rightarrow> x)"

text \<open>Concrete calculators and positions, on which the results below are run.\<close>

definition binance_calc :: "unit calculator" where
  "binance_calc = \<lparr> exchange_name = ''binance'', exchange = () \<rparr>"

definition bybit_calc :: "unit calculator" where
  "bybit_calc = \<lparr> exchange_name = ''bybit'', exchange = () \<rparr>"

definition eth_long :: position where
  "eth_long = \<lparr> symbol = ''ETH/USDT:USDT'', side = ''long'', notional = Some 150,
                unrealizedPnl = Some 3, contracts = Some 1 \<rparr>"

definition sol_short :: position where
  "sol_short = \<lparr> symbol = ''SOL/USDT:USDT'', side = ''short'', notional = Some (- 100),
                 unrealizedPnl = None, contracts = Some 2 \<rparr>"

definition btc_long :: position where
  "btc_long = \<lparr> symbol = ''BTC/USDT:USDT'', side = ''long'', notional = Some 1000,
                unrealizedPnl = Some 0, contracts = Some 1 \<rparr>"

definition paxg_long :: position where
  "paxg_long = \<lparr> symbol = ''PAXGUSDT'', side = ''long'', notional = Some 500,
                 unrealizedPnl = Some 7, contracts = Some 1 \<rparr>"

definition odd_side :: position where
  "odd_side = \<lparr> symbol = ''XRP/USDT:USDT'', side = ''both'', notional = Some 50,
                unrealizedPnl = Some 2, contracts = Some 1 \<rparr>"

definition ada_long_100 :: position where
  "ada_long_100 = \<lparr> symbol = ''ADA/USDT:USDT'', side = ''long'', notional = Some 100,
                    unrealizedPnl = Some 5, contracts = Some 1 \<rparr>"

definition ada_short_40 :: position where
  "ada_short_40 = \<lparr> symbol = ''ADA/USDT:USDT'', side = ''short'', notional = Some (- 40),
                    unrealizedPnl = Some 0, contracts = Some 1 \<rparr>"

definition paxg_long_100 :: position where
  "paxg_long_100 = \<lparr> symbol = ''PAXGUSDT'', side = ''long'', notional = Some 100,
                     unrealizedPnl = Some 0, contracts = Some 1 \<rparr>"

definition paxg_short_40 :: position where
  "paxg_short_40 = \<lparr> symbol = ''PAXGUSDT'', side = ''short'', notional = Some (- 40),
                     unrealizedPnl = Some 0, contracts = Some 1 \<rparr>"

text \<open>
  A dated contract as ccxt names it, two exchange clients (one whose calls raise, one
  whose payloads are malformed), a string parser that reads nothing, and two networks:
  Telegram's rate-limit answer arriving with HTTP status 429, and the same body
  arriving with status 200.
\<close>

definition dated_btc_long :: position where
  "dated_btc_long = \<lparr> symbol = ''BTC/USDT:USDT-231229'', side = ''long'', notional = Some 1000,
                      unrealizedPnl = Some 0, contracts = Some 1 \<rparr>"

definition failing_client :: exchange_client where
  "failing_client = \<lparr> api_fetch_positions = Inl (OtherException ''NetworkError''),
                       api_fetch_balance = Inl (OtherException ''AuthenticationError'') \<rparr>"

definition malformed_client :: exchange_client where
  "malformed_client =
     \<lparr> api_fetch_positions = Inr [eth_long, sol_short \<lparr> contracts := None \<rparr>],
       api_fetch_balance = Inr (PDict [(''info'', PDict [(''result'', PDict [(''list'', PList [])])])]) \<rparr>"

definition no_parse :: "string \<Rightarrow> real option" where
  "no_parse s = None"

definition rate_limit_body :: py where
  "rate_limit_body =
     PDict [(''ok'', PBool False), (''error_code'', PInt 429),
            (''description'', PStr ''Too Many Requests: retry after 5''),
            (''parameters'', PDict [(''retry_after'', PInt 5)])]"

definition ok_response :: response where
  "ok_response = \<lparr> status_code = 200, body_text = ''ok'',
                    body_json = Some (PDict [(''ok'', PBool True)]) \<rparr>"

definition telegram_429 :: network where
  "telegram_429 i =
     (if i = 0 then Inr \<lparr> status_code = 429, body_text = ''Too Many Requests'',
                           body_json = Some rate_limit_body \<rparr>
      else Inr ok_response)"

definition rate_limit_in_200 :: network where
  "rate_limit_in_200 i =
     (if i = 0 then Inr \<lparr> status_code = 200, body_text = ''Too Many Requests'',
                           body_json = Some rate_limit_body \<rparr>
      else Inr ok_response)"

text \<open>
  Two heaps that hold the same exchange name and the same three positions (one listed
  twice) at different addresses, beside different other objects.
\<close>

definition heap_a :: heap where
  "heap_a = [OCalc ''bybit'' 7, OPos eth_long, OPos sol_short, OList [1, 2, 1]]"

definition heap_b :: heap where
  "heap_b = [OList [3, 2, 3], OCalc ''bybit'' 9, OPos sol_short, OPos eth_long, ODict [(''ETH/USDT:USDT'', 1)]]"

text \<open>Three Bitget clients: two malformed payloads, and one with no USDT entry.\<close>

definition bitget_bad_entry :: exchange_client where
  "bitget_bad_entry =
     \<lparr> api_fetch_positions = Inr [],
       api_fetch_balance = Inr (PDict [(''info'', PList [PInt 5])]) \<rparr>"

definition bitget_bad_number :: exchange_client where
  "bitget_bad_number =
     \<lparr> api_fetch_positions = Inr [],
       api_fetch_balance =
         Inr (PDict [(''info'', PList [PDict [(''marginCoin'', PStr ''USDT''),
                                              (''available'', PStr ''n/a'')]])]) \<rparr>"

definition bitget_no_usdt :: exchange_client where
  "bitget_no_usdt =
     \<lparr> api_fetch_positions = Inr [],
       api_fetch_balance =
         Inr (PDict [(''info'', PList [PDict [(''marginCoin'', PStr ''USDC''),
                                              (''available'', PFloat 12)]])]) \<rparr>"

lemmas notifier_eval =
  send_telegram_message_def send_body_def not_ok_def retry_once_def post_json_def
  raise_for_status_def response_json_def and_then_def posts_def sleeps_def

lemmas calc_eval =
  calculate_long_short_ratio_def accumulate_def notional_value_def excluded_tickers_def
  dict_has_def dict_set_def dict_iadd_def raw_step_def effective_step_def weight_def
  ratio_of_def Let_def

section \<open>Properties of the aggregation\<close>

subsection \<open>The two dicts and the loop body\<close>

lemma dict_accum_keys:
  "map fst (dict_accum d k v) = (if k \<in> set (map fst d) then map fst d else map fst d @ [k])"
  by (auto simp: dict_accum_def dict_iadd_def dict_set_def dict_has_def split: prod.splits)

lemma map_of_dict_iadd:
  "map_of (dict_iadd d k v) s = (if s = k then map_option (\<lambda>x. x + v) (map_of d k) else map_of d s)"
  by (induction d) (auto simp: dict_iadd_def)

lemma map_of_dict_accum:
  "map_of (dict_accum d k v) s =
     (if s = k then Some ((case map_of d k of None \<Rightarrow> 0 | Some x \<Rightarrow> x) + v) else map_of d s)"
proof (cases "dict_has d k")
  case True
  then obtain x where "map_of d k = Some x"
    by (metis dict_has_def map_of_eq_None_iff not_None_eq)
  with True show ?thesis
    by (simp add: dict_accum_def map_of_dict_iadd)
next
  case False
  then have "map_of d k = None"
    by (simp add: dict_has_def map_of_eq_None_iff)
  with False show ?thesis
    by (simp add: dict_accum_def map_of_dict_iadd dict_set_def map_add_def split: option.splits)
qed

lemma accumulate_alt:
  "map fst sp = map fst pl \<Longrightarrow>
   accumulate ex pos (sp, pl) =
     (case position_value ex pos of None \<Rightarrow> (sp, pl)
      | Some v \<Rightarrow> (dict_accum sp (symbol pos) v, dict_accum pl (symbol pos) (position_pnl pos)))"
proof -
  assume k: "map fst sp = map fst pl"
  then have "dict_has sp (symbol pos) = dict_has pl (symbol pos)"
    by (metis dict_has_def set_map)
  then show ?thesis
    by (simp add: accumulate_def position_value_def position_pnl_def dict_accum_def Let_def split: option.splits)
qed

lemma fold_raw_step:
  "fold raw_step items (a, b) =
     (a + sum_list (map snd (filter (\<lambda>(k, n). 0 < n) items)),
      b + sum_list (map (\<lambda>(k, n). \<bar>n\<bar>) (filter (\<lambda>(k, n). n < 0) items)))"
  by (induction items arbitrary: a b) (auto simp: raw_step_def)

lemma fold_effective_step:
  "fold effective_step items (a, b) =
     (a + sum_list (map (\<lambda>(k, n). n * weight k) (filter (\<lambda>(k, n). 0 < n) items)),
      b + sum_list (map (\<lambda>(k, n). \<bar>n\<bar> * weight k) (filter (\<lambda>(k, n). n < 0) items)))"
  by (induction items arbitrary: a b) (auto simp: effective_step_def)

lemma values_of_Cons:
  "values_of ex s (p # ps) =
     (if symbol p = s then (case position_value ex p of None \<Rightarrow> values_of ex s ps | Some v \<Rightarrow> v # values_of ex s ps)
      else values_of ex s ps)"
  by (simp add: values_of_def List.map_filter_simps split: option.splits)

lemma pnls_of_Cons:
  "pnls_of ex s (p # ps) =
     (if symbol p = s \<and> position_value ex p \<noteq> None then position_pnl p # pnls_of ex s ps
      else pnls_of ex s ps)"
  by (simp add: pnls_of_def List.map_filter_simps)

lemma accumulate_keys:
  assumes "map fst sp = map fst pl"
  shows "map fst (fst (accumulate ex pos (sp, pl))) = map fst (snd (accumulate ex pos (sp, pl)))"
  using assms by (simp add: accumulate_alt dict_accum_keys split: option.splits)

lemma fold_accumulate_keys:
  "map fst sp = map fst pl \<Longrightarrow>
   map fst (fst (fold (accumulate ex) ps (sp, pl))) = map fst (snd (fold (accumulate ex) ps (sp, pl)))"
proof (induction ps arbitrary: sp pl)
  case Nil
  then show ?case by simp
next
  case (Cons p ps)
  obtain sp' pl' where step: "accumulate ex p (sp, pl) = (sp', pl')"
    by (cases "accumulate ex p (sp, pl)")
  with accumulate_keys [OF Cons.prems, of ex p] have "map fst sp' = map fst pl'"
    by simp
  from Cons.IH [OF this] step show ?case by simp
qed

lemma fold_accumulate_distinct:
  "map fst sp = map fst pl \<Longrightarrow> distinct (map fst sp) \<Longrightarrow>
   distinct (map fst (fst (fold (accumulate ex) ps (sp, pl))))"
proof (induction ps arbitrary: sp pl)
  case Nil
  then show ?case by simp
next
  case (Cons p ps)
  obtain sp' pl' where step: "accumulate ex p (sp, pl) = (sp', pl')"
    by (cases "accumulate ex p (sp, pl)")
  with accumulate_keys [OF Cons.prems(1), of ex p] have k: "map fst sp' = map fst pl'"
    by simp
  have d: "distinct (map fst sp')"
    using step Cons.prems by (auto simp: accumulate_alt dict_accum_keys split: option.splits)
  from Cons.IH [OF k d] step show ?case by simp
qed

lemma fold_accumulate_lookup:
  "map fst sp = map fst pl \<Longrightarrow>
   map_of (fst (fold (accumulate ex) ps (sp, pl))) s =
     (case map_of sp s of
        None \<Rightarrow> (if values_of ex s ps = [] then None else Some (sum_list (values_of ex s ps)))
      | Some x \<Rightarrow> Some (x + sum_list (values_of ex s ps)))"
proof (induction ps arbitrary: sp pl)
  case Nil
  then show ?case by (simp add: values_of_def List.map_filter_simps split: option.splits)
next
  case (Cons p ps)
  obtain sp' pl' where step: "accumulate ex p (sp, pl) = (sp', pl')"
    by (cases "accumulate ex p (sp, pl)")
  with accumulate_keys [OF Cons.prems, of ex p] have k: "map fst sp' = map fst pl'"
    by simp
  have sp': "sp' = (case position_value ex p of None \<Rightarrow> sp | Some v \<Rightarrow> dict_accum sp (symbol p) v)"
    using step Cons.prems by (simp add: accumulate_alt split: option.splits)
  have "map_of (fst (fold (accumulate ex) (p # ps) (sp, pl))) s
          = map_of (fst (fold (accumulate ex) ps (sp', pl'))) s"
    using step by simp
  also have "\<dots> = (case map_of sp' s of
        None \<Rightarrow> (if values_of ex s ps = [] then None else Some (sum_list (values_of ex s ps)))
      | Some x \<Rightarrow> Some (x + sum_list (values_of ex s ps)))"
    by (rule Cons.IH [OF k])
  also have "\<dots> = (case map_of sp s of
        None \<Rightarrow> (if values_of ex s (p # ps) = [] then None else Some (sum_list (values_of ex s (p # ps))))
      | Some x \<Rightarrow> Some (x + sum_list (values_of ex s (p # ps))))"
    by (simp add: sp' values_of_Cons map_of_dict_accum split: option.splits)
  finally show ?case .
qed

lemma fold_accumulate_lookup_pnl:
  "map fst sp = map fst pl \<Longrightarrow>
   map_of (snd (fold (accumulate ex) ps (sp, pl))) s =
     (case map_of pl s of
        None \<Rightarrow> (if pnls_of ex s ps = [] then None else Some (sum_list (pnls_of ex s ps)))
      | Some x \<Rightarrow> Some (x + sum_list (pnls_of ex s ps)))"
proof (induction ps arbitrary: sp pl)
  case Nil
  then show ?case by (simp add: pnls_of_def List.map_filter_simps split: option.splits)
next
  case (Cons p ps)
  obtain sp' pl' where step: "accumulate ex p (sp, pl) = (sp', pl')"
    by (cases "accumulate ex p (sp, pl)")
  with accumulate_keys [OF Cons.prems, of ex p] have k: "map fst sp' = map fst pl'"
    by simp
  have pl': "pl' = (case position_value ex p of None \<Rightarrow> pl | Some v \<Rightarrow> dict_accum pl (symbol p) (position_pnl p))"
    using step Cons.prems by (simp add: accumulate_alt split: option.splits)
  have "map_of (snd (fold (accumulate ex) (p # ps) (sp, pl))) s
          = map_of (snd (fold (accumulate ex) ps (sp', pl'))) s"
    using step by simp
  also have "\<dots> = (case map_of pl' s of
        None \<Rightarrow> (if pnls_of ex s ps = [] then None else Some (sum_list (pnls_of ex s ps)))
      | Some x \<Rightarrow> Some (x + sum_list (pnls_of ex s ps)))"
    by (rule Cons.IH [OF k])
  also have "\<dots> = (case map_of pl s of
        None \<Rightarrow> (if pnls_of ex s (p # ps) = [] then None else Some (sum_list (pnls_of ex s (p # ps))))
      | Some x \<Rightarrow> Some (x + sum_list (pnls_of ex s (p # ps))))"
    by (auto simp add: pl' pnls_of_Cons map_of_dict_accum split: option.splits)
  finally show ?case .
qed

lemma fold_filter_skip:
  "(\<And>x a. \<not> P x \<Longrightarrow> f x a = a) \<Longrightarrow> fold f (filter P xs) a = fold f xs a"
  by (induction xs arbitrary: a) auto

subsection \<open>The totals and the ratio\<close>

lemma calculate_fields:
  "symbol_positions (calculate_long_short_ratio self ps) = fst (fold (accumulate (exchange_name self)) ps ([], []))"
  "symbol_pnl (calculate_long_short_ratio self ps) = snd (fold (accumulate (exchange_name self)) ps ([], []))"
  "raw_long_total (calculate_long_short_ratio self ps) =
     sum_list (map snd (filter (\<lambda>(k, n). 0 < n) (symbol_positions (calculate_long_short_ratio self ps))))"
  "raw_short_total (calculate_long_short_ratio self ps) =
     sum_list (map (\<lambda>(k, n). \<bar>n\<bar>) (filter (\<lambda>(k, n). n < 0) (symbol_positions (calculate_long_short_ratio self ps))))"
  "effective_long_total (calculate_long_short_ratio self ps) =
     sum_list (map (\<lambda>(k, n). n * weight k) (filter (\<lambda>(k, n). 0 < n) (symbol_positions (calculate_long_short_ratio self ps))))"
  "effective_short_total (calculate_long_short_ratio self ps) =
     sum_list (map (\<lambda>(k, n). \<bar>n\<bar> * weight k) (filter (\<lambda>(k, n). n < 0) (symbol_positions (calculate_long_short_ratio self ps))))"
  "long_short_ratio (calculate_long_short_ratio self ps) =
     ratio_of (effective_long_total (calculate_long_short_ratio self ps))
              (effective_short_total (calculate_long_short_ratio self ps))"
  "overall_pnl (calculate_long_short_ratio self ps) =
     sum_list (map snd (symbol_pnl (calculate_long_short_ratio self ps)))"
  by (simp_all add: calculate_long_short_ratio_def fold_raw_step fold_effective_step split: prod.splits)

lemma weight_pos: "0 < weight k"
  by (simp add: weight_def)

lemma effective_long_nonneg: "0 \<le> effective_long_total (calculate_long_short_ratio self ps)"
  unfolding calculate_fields(5)
  by (rule sum_list_nonneg) (auto simp: weight_def)

lemma effective_short_nonneg: "0 \<le> effective_short_total (calculate_long_short_ratio self ps)"
  unfolding calculate_fields(6)
  by (rule sum_list_nonneg) (auto simp: weight_def)

lemma calculate_Nil:
  "calculate_long_short_ratio self [] =
     \<lparr> raw_long_total = 0, raw_short_total = 0, effective_long_total = 0,
       effective_short_total = 0, long_short_ratio = Ratio 0, symbol_positions = [],
       symbol_pnl = [], overall_pnl = 0 \<rparr>"
  by (simp add: calculate_long_short_ratio_def ratio_of_def)

text \<open>
  Claim C1. For every position list the ratio is the effective long total divided by
  the effective short total when the effective short total is positive; when the
  effective short total is zero it is the infinite sentinel if the effective long
  total is positive and 0 otherwise. Both effective totals are never negative, so
  these cases are all there are. An empty list gives ratio 0, the four totals 0, empty
  mappings and overall PnL 0.
\<close>

theorem ratio_cases:
  assumes "r = calculate_long_short_ratio self ps"
  shows "(0 < effective_short_total r \<longrightarrow>
            long_short_ratio r = Ratio (effective_long_total r / effective_short_total r))
       \<and> (effective_short_total r = 0 \<and> 0 < effective_long_total r \<longrightarrow> long_short_ratio r = Infinity)
       \<and> (effective_short_total r = 0 \<and> \<not> 0 < effective_long_total r \<longrightarrow> long_short_ratio r = Ratio 0)
       \<and> 0 \<le> effective_short_total r \<and> 0 \<le> effective_long_total r
       \<and> calculate_long_short_ratio self [] =
           \<lparr> raw_long_total = 0, raw_short_total = 0, effective_long_total = 0,
             effective_short_total = 0, long_short_ratio = Ratio 0, symbol_positions = [],
             symbol_pnl = [], overall_pnl = 0 \<rparr>"
proof -
  have "long_short_ratio r = ratio_of (effective_long_total r) (effective_short_total r)"
    unfolding assms by (rule calculate_fields(7))
  moreover have "0 \<le> effective_short_total r" "0 \<le> effective_long_total r"
    unfolding assms by (rule effective_short_nonneg, rule effective_long_nonneg)
  ultimately show ?thesis
    by (simp add: ratio_of_def calculate_Nil)
qed

theorem ratio_cases_witness:
  "0 < effective_short_total (calculate_long_short_ratio binance_calc [eth_long, sol_short])
   \<and> long_short_ratio (calculate_long_short_ratio binance_calc [eth_long, sol_short]) = Ratio (3 / 2)
   \<and> effective_short_total (calculate_long_short_ratio binance_calc [eth_long]) = 0
   \<and> 0 < effective_long_total (calculate_long_short_ratio binance_calc [eth_long])
   \<and> long_short_ratio (calculate_long_short_ratio binance_calc [eth_long]) = Infinity
   \<and> effective_short_total (calculate_long_short_ratio binance_calc [odd_side]) = 0
   \<and> long_short_ratio (calculate_long_short_ratio binance_calc [odd_side]) = Ratio 0"
  using ratio_cases [OF refl, of binance_calc "[eth_long, sol_short]"]
        ratio_cases [OF refl, of binance_calc "[eth_long]"]
        ratio_cases [OF refl, of binance_calc "[odd_side]"]
  by (simp add: calc_eval binance_calc_def eth_long_def sol_short_def odd_side_def)

subsection \<open>Which positions reach the dicts\<close>

lemma values_of_nonempty:
  "values_of ex s ps \<noteq> [] \<longleftrightarrow> (\<exists>p\<in>set ps. symbol p = s \<and> position_value ex p \<noteq> None)"
  by (induction ps) (auto simp: values_of_Cons values_of_def List.map_filter_simps split: option.splits)

lemma keys_positions:
  "s \<in> fst ` set (symbol_positions (calculate_long_short_ratio self ps)) \<longleftrightarrow>
     (\<exists>p\<in>set ps. symbol p = s \<and> position_value (exchange_name self) p \<noteq> None)"
proof -
  have "s \<in> fst ` set (symbol_positions (calculate_long_short_ratio self ps)) \<longleftrightarrow>
          map_of (symbol_positions (calculate_long_short_ratio self ps)) s \<noteq> None"
    by (simp add: map_of_eq_None_iff)
  also have "\<dots> \<longleftrightarrow> values_of (exchange_name self) s ps \<noteq> []"
    by (simp add: calculate_fields(1) fold_accumulate_lookup)
  finally show ?thesis by (simp add: values_of_nonempty)
qed

lemma keys_pnl:
  "map fst (symbol_pnl (calculate_long_short_ratio self ps)) =
   map fst (symbol_positions (calculate_long_short_ratio self ps))"
  by (simp add: calculate_fields(1,2) fold_accumulate_keys)

lemma accumulate_skip:
  "position_value ex pos = None \<Longrightarrow> accumulate ex pos acc = acc"
  by (cases acc) (auto simp: accumulate_def position_value_def position_pnl_def split: option.splits if_splits)

lemma calculate_filter:
  assumes "\<And>p. \<not> P p \<Longrightarrow> position_value (exchange_name self) p = None"
  shows "calculate_long_short_ratio self (filter P ps) = calculate_long_short_ratio self ps"
proof -
  have "fold (accumulate (exchange_name self)) (filter P ps) ([], []) =
        fold (accumulate (exchange_name self)) ps ([], [])"
    by (rule fold_filter_skip) (simp add: accumulate_skip assms)
  then show ?thesis by (simp add: calculate_long_short_ratio_def)
qed

text \<open>
  Claim C5. Positions whose symbol is in the excluded set contribute nothing to any
  output: the whole summary (the four totals, the ratio, the two mappings and the
  overall PnL) is the one computed from the list without them, and no excluded symbol
  is a key of either mapping. The excluded set holds \<^verbatim>\<open>PAXGUSDT\<close> and
  \<^verbatim>\<open>BTCDOMUSDT\<close>, each also in its \<^verbatim>\<open>BASE/QUOTE\<close> and \<^verbatim>\<open>BASE/QUOTE:USDT\<close>
  spelling.
\<close>

theorem excluded_symbols_ignored:
  "calculate_long_short_ratio self (filter (\<lambda>p. symbol p \<notin> excluded_tickers) ps) =
     calculate_long_short_ratio self ps
   \<and> fst ` set (symbol_positions (calculate_long_short_ratio self ps)) \<inter> excluded_tickers = {}
   \<and> fst ` set (symbol_pnl (calculate_long_short_ratio self ps)) \<inter> excluded_tickers = {}
   \<and> excluded_tickers = {''PAXGUSDT'', ''BTCDOMUSDT'', ''PAXG/USDT'', ''BTCDOM/USDT'',
        ''PAXG/USDT:USDT'', ''BTCDOM/USDT:USDT''}"
proof -
  have a: "calculate_long_short_ratio self (filter (\<lambda>p. symbol p \<notin> excluded_tickers) ps) =
     calculate_long_short_ratio self ps"
    by (rule calculate_filter) (simp add: position_value_def)
  have b: "fst ` set (symbol_positions (calculate_long_short_ratio self ps)) \<inter> excluded_tickers = {}"
  proof -
    have "s \<notin> excluded_tickers"
      if "s \<in> fst ` set (symbol_positions (calculate_long_short_ratio self ps))" for s
    proof -
      from that obtain p where "symbol p = s" "position_value (exchange_name self) p \<noteq> None"
        unfolding keys_positions by blast
      then show ?thesis by (auto simp: position_value_def split: if_splits)
    qed
    then show ?thesis by blast
  qed
  have "fst ` set (symbol_pnl (calculate_long_short_ratio self ps)) =
        fst ` set (symbol_positions (calculate_long_short_ratio self ps))"
    using keys_pnl [of self ps] by (metis set_map)
  with a b show ?thesis by (simp add: excluded_tickers_def)
qed

theorem excluded_symbols_ignored_witness:
  "calculate_long_short_ratio binance_calc [paxg_long, eth_long, sol_short] =
     calculate_long_short_ratio binance_calc [eth_long, sol_short]
   \<and> overall_pnl (calculate_long_short_ratio binance_calc [paxg_long, eth_long, sol_short]) = 3
   \<and> ''PAXGUSDT'' \<notin> fst ` set (symbol_positions
         (calculate_long_short_ratio binance_calc [paxg_long, eth_long, sol_short]))"
  using excluded_symbols_ignored [of binance_calc "[paxg_long, eth_long, sol_short]"]
  by (simp add: calc_eval binance_calc_def paxg_long_def eth_long_def sol_short_def)

lemma position_value_side:
  "side pos \<noteq> ''long'' \<Longrightarrow> side pos \<noteq> ''short'' \<Longrightarrow> position_value ex pos = None"
  by (simp add: position_value_def notional_value_def split: option.splits)

text \<open>
  Claim C10. A position whose side is neither \<^verbatim>\<open>'long'\<close> nor \<^verbatim>\<open>'short'\<close> is skipped:
  the loop body leaves both mappings as they are, the summary is the one computed from
  the list without such positions, and a symbol that only such positions carry is a
  key of neither mapping.
\<close>

theorem unknown_side_skipped:
  "(side pos \<noteq> ''long'' \<and> side pos \<noteq> ''short'' \<longrightarrow> accumulate (exchange_name self) pos acc = acc)
   \<and> calculate_long_short_ratio self (filter (\<lambda>p. side p = ''long'' \<or> side p = ''short'') ps) =
       calculate_long_short_ratio self ps
   \<and> ((\<forall>p\<in>set ps. symbol p = s \<longrightarrow> side p \<noteq> ''long'' \<and> side p \<noteq> ''short'') \<longrightarrow>
        s \<notin> fst ` set (symbol_positions (calculate_long_short_ratio self ps))
      \<and> s \<notin> fst ` set (symbol_pnl (calculate_long_short_ratio self ps)))"
proof -
  have a: "side pos \<noteq> ''long'' \<and> side pos \<noteq> ''short'' \<longrightarrow> accumulate (exchange_name self) pos acc = acc"
    by (simp add: accumulate_skip position_value_side)
  have b: "calculate_long_short_ratio self (filter (\<lambda>p. side p = ''long'' \<or> side p = ''short'') ps) =
       calculate_long_short_ratio self ps"
    by (rule calculate_filter) (simp add: position_value_side)
  have k: "fst ` set (symbol_pnl (calculate_long_short_ratio self ps)) =
        fst ` set (symbol_positions (calculate_long_short_ratio self ps))"
    using keys_pnl [of self ps] by (metis set_map)
  have c: "(\<forall>p\<in>set ps. symbol p = s \<longrightarrow> side p \<noteq> ''long'' \<and> side p \<noteq> ''short'') \<longrightarrow>
        s \<notin> fst ` set (symbol_positions (calculate_long_short_ratio self ps))"
  proof
    assume h: "\<forall>p\<in>set ps. symbol p = s \<longrightarrow> side p \<noteq> ''long'' \<and> side p \<noteq> ''short''"
    have "position_value (exchange_name self) p = None" if "p \<in> set ps" "symbol p = s" for p
      using h that by (simp add: position_value_side)
    then show "s \<notin> fst ` set (symbol_positions (calculate_long_short_ratio self ps))"
      unfolding keys_positions by auto
  qed
  from a b c k show ?thesis by simp
qed

theorem unknown_side_skipped_witness:
  "accumulate (exchange_name binance_calc) odd_side ([(''ETH/USDT:USDT'', 150)], [(''ETH/USDT:USDT'', 3)]) =
     ([(''ETH/USDT:USDT'', 150)], [(''ETH/USDT:USDT'', 3)])
   \<and> calculate_long_short_ratio binance_calc [odd_side, eth_long] =
       calculate_long_short_ratio binance_calc [eth_long]
   \<and> ''XRP/USDT:USDT'' \<notin> fst ` set (symbol_positions (calculate_long_short_ratio binance_calc [odd_side, eth_long]))
   \<and> ''XRP/USDT:USDT'' \<notin> fst ` set (symbol_pnl (calculate_long_short_ratio binance_calc [odd_side, eth_long]))"
  using unknown_side_skipped [of odd_side binance_calc
          "([(''ETH/USDT:USDT'', 150)], [(''ETH/USDT:USDT'', 3)])" "[odd_side, eth_long]" "''XRP/USDT:USDT''"]
  by (simp add: binance_calc_def odd_side_def eth_long_def)

subsection \<open>What one position adds to its symbol\<close>

lemma values_of_append: "values_of ex s (xs @ ys) = values_of ex s xs @ values_of ex s ys"
  by (induction xs) (simp_all add: values_of_Cons split: option.splits, simp add: values_of_def List.map_filter_simps)

lemma lookup_positions:
  "map_of (symbol_positions (calculate_long_short_ratio self ps)) s =
     (if values_of (exchange_name self) s ps = [] then None
      else Some (sum_list (values_of (exchange_name self) s ps)))"
  by (simp add: calculate_fields(1) fold_accumulate_lookup)

lemma lookup_pnl:
  "map_of (symbol_pnl (calculate_long_short_ratio self ps)) s =
     (if pnls_of (exchange_name self) s ps = [] then None
      else Some (sum_list (pnls_of (exchange_name self) s ps)))"
  by (simp add: calculate_fields(2) fold_accumulate_lookup_pnl)

lemma distinct_positions:
  "distinct (map fst (symbol_positions (calculate_long_short_ratio self ps)))"
  by (simp add: calculate_fields(1) fold_accumulate_distinct)

lemma net_notional_sum:
  "net_notional (calculate_long_short_ratio self ps) s = sum_list (values_of (exchange_name self) s ps)"
  by (simp add: net_notional_def lookup_positions)

lemma net_notional_insert:
  assumes "position_value (exchange_name self) pos = Some v"
  shows "net_notional (calculate_long_short_ratio self (ps1 @ pos # ps2)) (symbol pos) =
         net_notional (calculate_long_short_ratio self (ps1 @ ps2)) (symbol pos) + v"
  using assms by (simp add: net_notional_sum values_of_append values_of_Cons)

text \<open>
  Claim C3. A position that reaches the accumulation (its symbol is not excluded and its
  notional is not \<^verbatim>\<open>None\<close>) adds to the net notional of its symbol, wherever it stands
  in the list: on bybit \<open>|notional| + PnL\<close> when long and \<open>- (|notional| - PnL)\<close> when
  short; on every other exchange \<open>|notional|\<close> when long and \<open>- |notional|\<close> when short.
\<close>

theorem signed_contribution:
  assumes "symbol pos \<notin> excluded_tickers" and "notional pos = Some n"
  shows "(exchange_name self = ''bybit'' \<and> side pos = ''long'' \<longrightarrow>
            net_notional (calculate_long_short_ratio self (ps1 @ pos # ps2)) (symbol pos) =
            net_notional (calculate_long_short_ratio self (ps1 @ ps2)) (symbol pos)
              + (\<bar>n\<bar> + position_pnl pos))
       \<and> (exchange_name self = ''bybit'' \<and> side pos = ''short'' \<longrightarrow>
            net_notional (calculate_long_short_ratio self (ps1 @ pos # ps2)) (symbol pos) =
            net_notional (calculate_long_short_ratio self (ps1 @ ps2)) (symbol pos)
              + - (\<bar>n\<bar> - position_pnl pos))
       \<and> (exchange_name self \<noteq> ''bybit'' \<and> side pos = ''long'' \<longrightarrow>
            net_notional (calculate_long_short_ratio self (ps1 @ pos # ps2)) (symbol pos) =
            net_notional (calculate_long_short_ratio self (ps1 @ ps2)) (symbol pos) + \<bar>n\<bar>)
       \<and> (exchange_name self \<noteq> ''bybit'' \<and> side pos = ''short'' \<longrightarrow>
            net_notional (calculate_long_short_ratio self (ps1 @ pos # ps2)) (symbol pos) =
            net_notional (calculate_long_short_ratio self (ps1 @ ps2)) (symbol pos) + - \<bar>n\<bar>)"
proof -
  have v: "position_value (exchange_name self) pos =
             notional_value (exchange_name self) (side pos) n (position_pnl pos)"
    using assms by (simp add: position_value_def)
  have "position_value (exchange_name self) pos = Some (\<bar>n\<bar> + position_pnl pos)"
    if "exchange_name self = ''bybit'' \<and> side pos = ''long''"
    unfolding v using that by (simp add: notional_value_def)
  note a = net_notional_insert [OF this]
  have "position_value (exchange_name self) pos = Some (- (\<bar>n\<bar> - position_pnl pos))"
    if "exchange_name self = ''bybit'' \<and> side pos = ''short''"
    unfolding v using that by (simp add: notional_value_def)
  note b = net_notional_insert [OF this]
  have "position_value (exchange_name self) pos = Some \<bar>n\<bar>"
    if "exchange_name self \<noteq> ''bybit'' \<and> side pos = ''long''"
    unfolding v using that by (simp add: notional_value_def)
  note c = net_notional_insert [OF this]
  have "position_value (exchange_name self) pos = Some (- \<bar>n\<bar>)"
    if "exchange_name self \<noteq> ''bybit'' \<and> side pos = ''short''"
    unfolding v using that by (simp add: notional_value_def)
  note d = net_notional_insert [OF this]
  from a b c d show ?thesis by blast
qed

theorem signed_contribution_witness:
  "net_notional (calculate_long_short_ratio bybit_calc ([sol_short] @ ada_long_100 # [ada_short_40])) ''ADA/USDT:USDT'' =
   net_notional (calculate_long_short_ratio bybit_calc ([sol_short] @ [ada_short_40])) ''ADA/USDT:USDT'' + (\<bar>100\<bar> + 5)
   \<and> net_notional (calculate_long_short_ratio binance_calc ([sol_short] @ ada_long_100 # [ada_short_40])) ''ADA/USDT:USDT'' =
       net_notional (calculate_long_short_ratio binance_calc ([sol_short] @ [ada_short_40])) ''ADA/USDT:USDT'' + \<bar>100\<bar>
   \<and> net_notional (calculate_long_short_ratio bybit_calc ([] @ eth_long # [])) ''ETH/USDT:USDT'' = 153
   \<and> net_notional (calculate_long_short_ratio bybit_calc ([ada_long_100] @ ada_short_40 # [])) ''ADA/USDT:USDT'' =
       net_notional (calculate_long_short_ratio bybit_calc ([ada_long_100] @ [])) ''ADA/USDT:USDT'' + - (\<bar>- 40\<bar> - 0)
   \<and> net_notional (calculate_long_short_ratio binance_calc ([ada_long_100] @ ada_short_40 # [])) ''ADA/USDT:USDT'' =
       net_notional (calculate_long_short_ratio binance_calc ([ada_long_100] @ [])) ''ADA/USDT:USDT'' + - \<bar>- 40\<bar>"
  using signed_contribution [of ada_long_100 100 bybit_calc "[sol_short]" "[ada_short_40]"]
        signed_contribution [of ada_long_100 100 binance_calc "[sol_short]" "[ada_short_40]"]
        signed_contribution [of eth_long 150 bybit_calc "[]" "[]"]
        signed_contribution [of ada_short_40 "- 40" bybit_calc "[ada_long_100]" "[]"]
        signed_contribution [of ada_short_40 "- 40" binance_calc "[ada_long_100]" "[]"]
  by (simp add: calc_eval bybit_calc_def binance_calc_def sol_short_def ada_long_100_def ada_short_40_def eth_long_def net_notional_def position_pnl_def)

subsection \<open>Leaving one symbol out\<close>

lemma filter_dict_iadd:
  "filter (\<lambda>(k, x). k \<noteq> s) (dict_iadd d k' v) = dict_iadd (filter (\<lambda>(k, x). k \<noteq> s) d) k' v"
  by (induction d) (auto simp: dict_iadd_def split: if_splits)

lemma dict_iadd_absent: "\<not> dict_has d k \<Longrightarrow> dict_iadd d k v = d"
  by (induction d) (auto simp: dict_iadd_def dict_has_def)

lemma dict_has_filter:
  "dict_has (filter (\<lambda>(k, x). k \<noteq> s) d) k' \<longleftrightarrow> k' \<noteq> s \<and> dict_has d k'"
  by (induction d) (auto simp: dict_has_def)

lemma filter_dict_accum:
  "filter (\<lambda>(k, x). k \<noteq> s) (dict_accum d k' v) =
     (if k' = s then filter (\<lambda>(k, x). k \<noteq> s) d else dict_accum (filter (\<lambda>(k, x). k \<noteq> s) d) k' v)"
proof (cases "k' = s")
  case True
  have "\<not> dict_has (filter (\<lambda>(k, x). k \<noteq> s) (if dict_has d s then d else dict_set d s 0)) s"
    by (simp add: dict_has_filter)
  then show ?thesis
    using True by (simp add: dict_accum_def filter_dict_iadd dict_iadd_absent dict_set_def)
next
  case False
  then show ?thesis
    by (simp add: dict_accum_def filter_dict_iadd dict_has_filter dict_set_def)
qed

lemma keys_filter:
  "map fst (filter (\<lambda>(k, x). k \<noteq> s) d) = filter (\<lambda>k. k \<noteq> s) (map fst d)"
  by (induction d) auto

lemma fold_accumulate_filter:
  "map fst sp = map fst pl \<Longrightarrow>
   fold (accumulate ex) (filter (\<lambda>p. symbol p \<noteq> s) ps)
     (filter (\<lambda>(k, x). k \<noteq> s) sp, filter (\<lambda>(k, x). k \<noteq> s) pl) =
   (filter (\<lambda>(k, x). k \<noteq> s) (fst (fold (accumulate ex) ps (sp, pl))),
    filter (\<lambda>(k, x). k \<noteq> s) (snd (fold (accumulate ex) ps (sp, pl))))"
proof (induction ps arbitrary: sp pl)
  case Nil
  then show ?case by simp
next
  case (Cons p ps)
  obtain sp' pl' where step: "accumulate ex p (sp, pl) = (sp', pl')"
    by (cases "accumulate ex p (sp, pl)")
  with accumulate_keys [OF Cons.prems, of ex p] have k: "map fst sp' = map fst pl'"
    by simp
  have kf: "map fst (filter (\<lambda>(k, x). k \<noteq> s) sp) = map fst (filter (\<lambda>(k, x). k \<noteq> s) pl)"
    by (simp only: keys_filter Cons.prems)
  have alt: "accumulate ex p (sp, pl) = (case position_value ex p of None \<Rightarrow> (sp, pl)
      | Some v \<Rightarrow> (dict_accum sp (symbol p) v, dict_accum pl (symbol p) (position_pnl p)))"
    by (rule accumulate_alt [OF Cons.prems])
  have altf: "accumulate ex p (filter (\<lambda>(k, x). k \<noteq> s) sp, filter (\<lambda>(k, x). k \<noteq> s) pl) =
      (case position_value ex p of
         None \<Rightarrow> (filter (\<lambda>(k, x). k \<noteq> s) sp, filter (\<lambda>(k, x). k \<noteq> s) pl)
       | Some v \<Rightarrow> (dict_accum (filter (\<lambda>(k, x). k \<noteq> s) sp) (symbol p) v,
                    dict_accum (filter (\<lambda>(k, x). k \<noteq> s) pl) (symbol p) (position_pnl p)))"
    by (rule accumulate_alt [OF kf])
  have IH: "fold (accumulate ex) (filter (\<lambda>p. symbol p \<noteq> s) ps)
     (filter (\<lambda>(k, x). k \<noteq> s) sp', filter (\<lambda>(k, x). k \<noteq> s) pl') =
   (filter (\<lambda>(k, x). k \<noteq> s) (fst (fold (accumulate ex) ps (sp', pl'))),
    filter (\<lambda>(k, x). k \<noteq> s) (snd (fold (accumulate ex) ps (sp', pl'))))"
    by (rule Cons.IH [OF k])
  show ?case
  proof (cases "symbol p = s")
    case True
    have "filter (\<lambda>(k, x). k \<noteq> s) sp' = filter (\<lambda>(k, x). k \<noteq> s) sp
        \<and> filter (\<lambda>(k, x). k \<noteq> s) pl' = filter (\<lambda>(k, x). k \<noteq> s) pl"
    proof (cases "position_value ex p")
      case None
      with alt step show ?thesis by simp
    next
      case (Some v)
      with alt step have "sp' = dict_accum sp s v" "pl' = dict_accum pl s (position_pnl p)"
        using True by simp_all
      then show ?thesis by (simp add: filter_dict_accum)
    qed
    with IH True step show ?thesis by simp
  next
    case False
    have "accumulate ex p (filter (\<lambda>(k, x). k \<noteq> s) sp, filter (\<lambda>(k, x). k \<noteq> s) pl) =
            (filter (\<lambda>(k, x). k \<noteq> s) sp', filter (\<lambda>(k, x). k \<noteq> s) pl')"
    proof (cases "position_value ex p")
      case None
      with alt altf step show ?thesis by simp
    next
      case (Some v)
      with alt step have "sp' = dict_accum sp (symbol p) v" "pl' = dict_accum pl (symbol p) (position_pnl p)"
        by simp_all
      with Some altf False show ?thesis by (simp add: filter_dict_accum)
    qed
    with IH False step show ?thesis by simp
  qed
qed

lemma positions_without_symbol:
  "symbol_positions (calculate_long_short_ratio self (filter (\<lambda>p. symbol p \<noteq> s) ps)) =
   filter (\<lambda>(k, x). k \<noteq> s) (symbol_positions (calculate_long_short_ratio self ps))"
  using fold_accumulate_filter [of "[]" "[]" "exchange_name self" s ps]
  by (simp add: calculate_fields(1))

lemma sum_list_split_key:
  fixes f :: "string \<times> real \<Rightarrow> real"
  shows "distinct (map fst items) \<Longrightarrow> map_of items s = Some n \<Longrightarrow>
   sum_list (map f (filter P items)) =
     sum_list (map f (filter P (filter (\<lambda>(k, x). k \<noteq> s) items))) + (if P (s, n) then f (s, n) else 0)"
proof (induction items)
  case Nil
  then show ?case by simp
next
  case (Cons a items)
  obtain k x where a: "a = (k, x)" by (cases a)
  show ?case
  proof (cases "k = s")
    case True
    with Cons.prems a have "s \<notin> fst ` set items" "x = n" by auto
    then have "filter (\<lambda>(k, x). k \<noteq> s) items = items"
      by (force simp: filter_id_conv)
    with True a \<open>x = n\<close> show ?thesis by simp
  next
    case False
    with Cons a show ?thesis by simp
  qed
qed

lemma totals_without_symbol:
  assumes "map_of (symbol_positions (calculate_long_short_ratio self ps)) s = Some n"
  shows "raw_long_total (calculate_long_short_ratio self ps) =
           raw_long_total (calculate_long_short_ratio self (filter (\<lambda>p. symbol p \<noteq> s) ps))
             + (if 0 < n then n else 0)"
    and "raw_short_total (calculate_long_short_ratio self ps) =
           raw_short_total (calculate_long_short_ratio self (filter (\<lambda>p. symbol p \<noteq> s) ps))
             + (if n < 0 then \<bar>n\<bar> else 0)"
    and "effective_long_total (calculate_long_short_ratio self ps) =
           effective_long_total (calculate_long_short_ratio self (filter (\<lambda>p. symbol p \<noteq> s) ps))
             + (if 0 < n then n * weight s else 0)"
    and "effective_short_total (calculate_long_short_ratio self ps) =
           effective_short_total (calculate_long_short_ratio self (filter (\<lambda>p. symbol p \<noteq> s) ps))
             + (if n < 0 then \<bar>n\<bar> * weight s else 0)"
proof -
  note d = distinct_positions [of self ps]
  show "raw_long_total (calculate_long_short_ratio self ps) =
           raw_long_total (calculate_long_short_ratio self (filter (\<lambda>p. symbol p \<noteq> s) ps))
             + (if 0 < n then n else 0)"
    using sum_list_split_key [OF d assms, of snd "\<lambda>(k, n). 0 < n"]
    by (simp add: calculate_fields(3) positions_without_symbol)
  show "raw_short_total (calculate_long_short_ratio self ps) =
           raw_short_total (calculate_long_short_ratio self (filter (\<lambda>p. symbol p \<noteq> s) ps))
             + (if n < 0 then \<bar>n\<bar> else 0)"
    using sum_list_split_key [OF d assms, of "\<lambda>(k, n). \<bar>n\<bar>" "\<lambda>(k, n). n < 0"]
    by (simp add: calculate_fields(4) positions_without_symbol)
  show "effective_long_total (calculate_long_short_ratio self ps) =
           effective_long_total (calculate_long_short_ratio self (filter (\<lambda>p. symbol p \<noteq> s) ps))
             + (if 0 < n then n * weight s else 0)"
    using sum_list_split_key [OF d assms, of "\<lambda>(k, n). n * weight k" "\<lambda>(k, n). 0 < n"]
    by (simp add: calculate_fields(5) positions_without_symbol)
  show "effective_short_total (calculate_long_short_ratio self ps) =
           effective_short_total (calculate_long_short_ratio self (filter (\<lambda>p. symbol p \<noteq> s) ps))
             + (if n < 0 then \<bar>n\<bar> * weight s else 0)"
    using sum_list_split_key [OF d assms, of "\<lambda>(k, n). \<bar>n\<bar> * weight k" "\<lambda>(k, n). n < 0"]
    by (simp add: calculate_fields(6) positions_without_symbol)
qed

text \<open>
  Claim C4. Let \<open>n\<close> be the net notional of symbol \<open>s\<close>. Against the summary of the
  list without the positions of \<open>s\<close>, a positive \<open>n\<close> adds \<open>n\<close> to the raw long total
  and, to the effective long total, \<open>n / 2\<close> when \<open>s\<close> starts with \<^verbatim>\<open>BTC\<close> and \<open>n\<close>
  otherwise; a negative \<open>n\<close> does the same with \<open>|n|\<close> on the short totals. The totals of
  the other side stay as they are. So a \<^verbatim>\<open>BTC\<close> symbol with net notional 1000 adds 1000
  to the raw long total and 500 to the effective long total.
\<close>

theorem btc_half_weight:
  assumes "map_of (symbol_positions (calculate_long_short_ratio self ps)) s = Some n"
  shows "(0 < n \<longrightarrow>
            raw_long_total (calculate_long_short_ratio self ps) =
              raw_long_total (calculate_long_short_ratio self (filter (\<lambda>p. symbol p \<noteq> s) ps)) + n
          \<and> effective_long_total (calculate_long_short_ratio self ps) =
              effective_long_total (calculate_long_short_ratio self (filter (\<lambda>p. symbol p \<noteq> s) ps))
                + (if prefix ''BTC'' s then n / 2 else n)
          \<and> raw_short_total (calculate_long_short_ratio self ps) =
              raw_short_total (calculate_long_short_ratio self (filter (\<lambda>p. symbol p \<noteq> s) ps))
          \<and> effective_short_total (calculate_long_short_ratio self ps) =
              effective_short_total (calculate_long_short_ratio self (filter (\<lambda>p. symbol p \<noteq> s) ps)))
       \<and> (n < 0 \<longrightarrow>
            raw_short_total (calculate_long_short_ratio self ps) =
              raw_short_total (calculate_long_short_ratio self (filter (\<lambda>p. symbol p \<noteq> s) ps)) + \<bar>n\<bar>
          \<and> effective_short_total (calculate_long_short_ratio self ps) =
              effective_short_total (calculate_long_short_ratio self (filter (\<lambda>p. symbol p \<noteq> s) ps))
                + (if prefix ''BTC'' s then \<bar>n\<bar> / 2 else \<bar>n\<bar>)
          \<and> raw_long_total (calculate_long_short_ratio self ps) =
              raw_long_total (calculate_long_short_ratio self (filter (\<lambda>p. symbol p \<noteq> s) ps))
          \<and> effective_long_total (calculate_long_short_ratio self ps) =
              effective_long_total (calculate_long_short_ratio self (filter (\<lambda>p. symbol p \<noteq> s) ps)))"
  using totals_without_symbol [OF assms] by (simp add: weight_def)

theorem btc_half_weight_witness:
  "map_of (symbol_positions (calculate_long_short_ratio binance_calc [btc_long, eth_long, sol_short])) ''BTC/USDT:USDT'' = Some 1000
   \<and> raw_long_total (calculate_long_short_ratio binance_calc [btc_long, eth_long, sol_short]) =
       raw_long_total (calculate_long_short_ratio binance_calc [eth_long, sol_short]) + 1000
   \<and> effective_long_total (calculate_long_short_ratio binance_calc [btc_long, eth_long, sol_short]) =
       effective_long_total (calculate_long_short_ratio binance_calc [eth_long, sol_short]) + 500
   \<and> raw_long_total (calculate_long_short_ratio binance_calc [btc_long]) = 1000
   \<and> effective_long_total (calculate_long_short_ratio binance_calc [btc_long]) = 500
   \<and> raw_short_total (calculate_long_short_ratio binance_calc [eth_long, sol_short]) =
       raw_short_total (calculate_long_short_ratio binance_calc [eth_long]) + 100
   \<and> effective_short_total (calculate_long_short_ratio binance_calc [eth_long, sol_short]) =
       effective_short_total (calculate_long_short_ratio binance_calc [eth_long]) + 100"
  using btc_half_weight [of binance_calc "[btc_long, eth_long, sol_short]" "''BTC/USDT:USDT''" 1000]
        btc_half_weight [of binance_calc "[btc_long]" "''BTC/USDT:USDT''" 1000]
        btc_half_weight [of binance_calc "[eth_long, sol_short]" "''SOL/USDT:USDT''" "- 100"]
  by (simp add: calc_eval binance_calc_def btc_long_def eth_long_def sol_short_def)

subsection \<open>Netting per symbol\<close>

text \<open>
  Claim C2, as amended. The entries of one symbol add up to a single net notional: the
  mapping holds each symbol once, with the sum of the values its positions add; the raw
  long total is the sum of the positive net values and the raw short total the sum of
  the absolute negative ones, so a symbol is long or short by the sign of its net value.
  For a long of notional 100 and a short of notional -40 on one symbol that is not
  excluded, on an exchange other than bybit, or on bybit when the two unrealized PnLs sum
  to zero, the net notional is 60 and the raw long total is 60.
\<close>

theorem net_notional_additive:
  "distinct (map fst (symbol_positions (calculate_long_short_ratio self ps)))
   \<and> map_of (symbol_positions (calculate_long_short_ratio self ps)) s =
       (if values_of (exchange_name self) s ps = [] then None
        else Some (sum_list (values_of (exchange_name self) s ps)))
   \<and> raw_long_total (calculate_long_short_ratio self ps) =
       sum_list (map snd (filter (\<lambda>(k, n). 0 < n) (symbol_positions (calculate_long_short_ratio self ps))))
   \<and> raw_short_total (calculate_long_short_ratio self ps) =
       sum_list (map (\<lambda>(k, n). \<bar>n\<bar>) (filter (\<lambda>(k, n). n < 0) (symbol_positions (calculate_long_short_ratio self ps))))
   \<and> (symbol p1 = s \<and> symbol p2 = s \<and> s \<notin> excluded_tickers
        \<and> side p1 = ''long'' \<and> notional p1 = Some 100
        \<and> side p2 = ''short'' \<and> notional p2 = Some (- 40)
        \<and> (exchange_name self \<noteq> ''bybit'' \<or> position_pnl p1 + position_pnl p2 = 0) \<longrightarrow>
          symbol_positions (calculate_long_short_ratio self [p1, p2]) = [(s, 60)]
        \<and> raw_long_total (calculate_long_short_ratio self [p1, p2]) = 60
        \<and> raw_short_total (calculate_long_short_ratio self [p1, p2]) = 0)"
proof -
  have ex: "symbol_positions (calculate_long_short_ratio self [p1, p2]) = [(s, 60)]
        \<and> raw_long_total (calculate_long_short_ratio self [p1, p2]) = 60
        \<and> raw_short_total (calculate_long_short_ratio self [p1, p2]) = 0"
    if h: "symbol p1 = s" "symbol p2 = s" "s \<notin> excluded_tickers"
         "side p1 = ''long''" "notional p1 = Some 100"
         "side p2 = ''short''" "notional p2 = Some (- 40)"
         "exchange_name self \<noteq> ''bybit'' \<or> position_pnl p1 + position_pnl p2 = 0"
  proof -
    have sp: "symbol_positions (calculate_long_short_ratio self [p1, p2]) = [(s, 60)]"
      using h
      by (auto simp: calculate_long_short_ratio_def accumulate_def notional_value_def
            dict_has_def dict_set_def dict_iadd_def Let_def position_pnl_def
            split: prod.splits option.splits)
    show ?thesis
      by (simp add: calculate_fields(3,4) sp)
  qed
  show ?thesis
    using ex by (simp add: distinct_positions lookup_positions calculate_fields(3,4))
qed


theorem net_notional_additive_witness:
  "symbol_positions (calculate_long_short_ratio binance_calc [ada_long_100, ada_short_40]) = [(''ADA/USDT:USDT'', 60)]
   \<and> raw_long_total (calculate_long_short_ratio binance_calc [ada_long_100, ada_short_40]) = 60
   \<and> raw_short_total (calculate_long_short_ratio binance_calc [ada_long_100, ada_short_40]) = 0
   \<and> values_of ''binance'' ''ADA/USDT:USDT'' [ada_long_100, ada_short_40] = [100, - 40]
   \<and> map_of (symbol_positions (calculate_long_short_ratio binance_calc [ada_long_100, ada_short_40])) ''ADA/USDT:USDT'' = Some 60"
  using net_notional_additive [of binance_calc "[ada_long_100, ada_short_40]" "''ADA/USDT:USDT''" ada_long_100 ada_short_40]
  by (simp add: binance_calc_def ada_long_100_def ada_short_40_def excluded_tickers_def values_of_def position_value_def position_pnl_def
        notional_value_def List.map_filter_simps)

text \<open>
  The example of claim C2 as it was stated, for any two such positions on a symbol that
  does not start with \<^verbatim>\<open>BTC\<close>, fails on bybit, where the PnL of 5 on the long is folded
  in and the net notional is 65, and on the excluded symbol \<^verbatim>\<open>PAXGUSDT\<close>, which never
  enters the mapping.
\<close>

theorem net_notional_example_counterexample:
  "symbol ada_long_100 = symbol ada_short_40 \<and> \<not> prefix ''BTC'' (symbol ada_long_100)
   \<and> side ada_long_100 = ''long'' \<and> notional ada_long_100 = Some 100
   \<and> side ada_short_40 = ''short'' \<and> notional ada_short_40 = Some (- 40)
   \<and> symbol_positions (calculate_long_short_ratio bybit_calc [ada_long_100, ada_short_40]) = [(''ADA/USDT:USDT'', 65)]
   \<and> raw_long_total (calculate_long_short_ratio bybit_calc [ada_long_100, ada_short_40]) \<noteq> 60
   \<and> symbol paxg_long_100 = symbol paxg_short_40 \<and> \<not> prefix ''BTC'' (symbol paxg_long_100)
   \<and> side paxg_long_100 = ''long'' \<and> notional paxg_long_100 = Some 100
   \<and> side paxg_short_40 = ''short'' \<and> notional paxg_short_40 = Some (- 40)
   \<and> symbol_positions (calculate_long_short_ratio binance_calc [paxg_long_100, paxg_short_40]) = []
   \<and> raw_long_total (calculate_long_short_ratio binance_calc [paxg_long_100, paxg_short_40]) \<noteq> 60"
  by (simp add: calc_eval bybit_calc_def binance_calc_def ada_long_100_def ada_short_40_def
        paxg_long_100_def paxg_short_40_def)

section \<open>Properties of the aggregation as a method on objects\<close>

text \<open>
  One pass of the loop body on the heap does to the two dict objects what
  \<open>accumulate\<close> does to the two dicts, and touches no other object. The key of
  \<^verbatim>\<open>+=\<close> is always present, so \<^verbatim>\<open>KeyError\<close> is never raised.
\<close>

lemma accumulate_h_step:
  assumes "pos_a < length h0" and "h0 ! pos_a = OPos p"
    and "self_a < length h0" and "h0 ! self_a = OCalc ex c"
    and "map fst sp = map fst pl"
    and "accumulate ex p (sp, pl) = (sp', pl')"
  shows "accumulate_h self_a (length h0) (Suc (length h0)) pos_a (h0 @ [ODict sp, ODict pl]) =
           Inr (h0 @ [ODict sp', ODict pl'])"
proof -
  have hp: "dict_has pl k = dict_has sp k" for k
    using assms(5) by (metis dict_has_def set_map)
  have g1: "get_pos (h0 @ [ODict sp, ODict pl]) pos_a = Inr p"
    using assms(1,2) by (simp add: get_pos_def lookup_def nth_append)
  have g2: "get_exchange_name (h0 @ [ODict sp, ODict pl]) self_a = Inr ex"
    using assms(3,4) by (simp add: get_exchange_name_def lookup_def nth_append)
  have g3: "get_dict (h0 @ [ODict a, ODict b]) (length h0) = Inr a" for a b
    by (simp add: get_dict_def lookup_def nth_append)
  have g4: "get_dict (h0 @ [ODict a, ODict b]) (Suc (length h0)) = Inr b" for a b
    by (simp add: get_dict_def lookup_def nth_append)
  have s1: "store_obj (h0 @ [ODict a, ODict b]) (length h0) (ODict a') = h0 @ [ODict a', ODict b]" for a b a'
    by (simp add: store_obj_def list_update_append)
  have s2: "store_obj (h0 @ [ODict a, ODict b]) (Suc (length h0)) (ODict b') = h0 @ [ODict a, ODict b']" for a b b'
    by (simp add: store_obj_def list_update_append)
  have ha: "dict_has (dict_set sp k 0) k" "dict_has (dict_set pl k 0) k" if "\<not> dict_has sp k" for k
    using that hp [of k] by (auto simp: dict_set_def dict_has_def)
  show ?thesis
    using assms(6)
    by (auto simp: accumulate_h_def accumulate_def g1 g2 g3 g4 s1 s2 and_then_def Let_def
          dict_setitem_def dict_iadd_item_def hp ha
          split: option.splits if_splits)
qed

lemma read_positions_Some:
  "read_positions h (a # as) = Some ps \<longleftrightarrow>
     (\<exists>p ps'. a < length h \<and> h ! a = OPos p \<and> read_positions h as = Some ps' \<and> ps = p # ps')"
  by (auto simp: lookup_def split: option.splits obj.splits if_splits)

lemma read_positions_extend:
  "read_positions h as = Some ps \<Longrightarrow> read_positions (h @ xs) as = Some ps"
proof (induction as arbitrary: ps)
  case Nil
  then show ?case by simp
next
  case (Cons a as)
  from Cons.prems obtain p ps' where
    a: "a < length h" "h ! a = OPos p" "read_positions h as = Some ps'" "ps = p # ps'"
    unfolding read_positions_Some by blast
  from Cons.IH [OF a(3)] a show ?case
    by (simp add: lookup_def nth_append)
qed

lemma loop_h_fold:
  assumes "read_positions h0 as = Some ps" and "self_a < length h0" and "h0 ! self_a = OCalc ex c"
    and "map fst sp = map fst pl"
  shows "loop_h self_a (length h0) (Suc (length h0)) as (h0 @ [ODict sp, ODict pl]) =
           Inr (h0 @ [ODict (fst (fold (accumulate ex) ps (sp, pl))),
                      ODict (snd (fold (accumulate ex) ps (sp, pl)))])"
  using assms(1,4)
proof (induction as arbitrary: ps sp pl)
  case Nil
  then show ?case by simp
next
  case (Cons a as)
  from Cons.prems(1) obtain p ps' where
    a: "a < length h0" "h0 ! a = OPos p" "read_positions h0 as = Some ps'" "ps = p # ps'"
    unfolding read_positions_Some by blast
  obtain sp' pl' where step: "accumulate ex p (sp, pl) = (sp', pl')"
    by (cases "accumulate ex p (sp, pl)")
  with accumulate_keys [OF Cons.prems(2), of ex p] have k: "map fst sp' = map fst pl'"
    by simp
  have "accumulate_h self_a (length h0) (Suc (length h0)) a (h0 @ [ODict sp, ODict pl]) =
          Inr (h0 @ [ODict sp', ODict pl'])"
    by (rule accumulate_h_step [OF a(1,2) assms(2,3) Cons.prems(2) step])
  with Cons.IH [OF a(3) k] a(4) step show ?case
    by (simp add: and_then_def)
qed

lemma calculate_h_refines:
  assumes "read_inputs h self_a positions_a = Some (ex, ps)"
  shows "\<exists>r h'. calculate_h h self_a positions_a = Inr (r, h')
       \<and> read_summary h' r = Some (calculate_long_short_ratio \<lparr> exchange_name = ex, exchange = () \<rparr> ps)
       \<and> take (length h) h' = h
       \<and> read_inputs h' self_a positions_a = Some (ex, ps)"
proof -
  from assms obtain c as where
    s: "self_a < length h" "h ! self_a = OCalc ex c"
    and l: "positions_a < length h" "h ! positions_a = OList as"
    and r: "read_positions h as = Some ps"
    by (auto simp: read_inputs_def lookup_def split: option.splits obj.splits if_splits)
  define sp where "sp = fst (fold (accumulate ex) ps ([], []))"
  define pl where "pl = snd (fold (accumulate ex) ps ([], []))"
  have loop: "loop_h self_a (length h) (Suc (length h)) as (h @ [ODict [], ODict []]) =
          Inr (h @ [ODict sp, ODict pl])"
    unfolding sp_def pl_def by (rule loop_h_fold [OF r s]) simp
  have gl: "get_list (h @ [ODict [], ODict []]) positions_a = Inr as"
    using l by (simp add: get_list_def lookup_def nth_append)
  have calc: "calculate_h h self_a positions_a =
          Inr (Suc (Suc (length h)), h @ [ODict sp, ODict pl, build_summary (length h) (Suc (length h)) sp pl])"
    by (simp add: calculate_h_def alloc_def gl loop and_then_def get_dict_def lookup_def nth_append)
  have rs: "read_summary (h @ [ODict sp, ODict pl, build_summary (length h) (Suc (length h)) sp pl])
              (Suc (Suc (length h))) =
            Some (calculate_long_short_ratio \<lparr> exchange_name = ex, exchange = () \<rparr> ps)"
    by (simp add: read_summary_def lookup_def nth_append build_summary_def
          calculate_long_short_ratio_def sp_def pl_def split: prod.splits)
  have ri: "read_inputs (h @ [ODict sp, ODict pl, build_summary (length h) (Suc (length h)) sp pl])
              self_a positions_a = Some (ex, ps)"
    using s l read_positions_extend [OF r]
    by (simp add: read_inputs_def lookup_def nth_append)
  from calc rs ri show ?thesis by simp
qed

text \<open>
  Claim C6. The aggregation is a pure, deterministic function. On any heap where the
  arguments name a calculator and a list of positions, the method returns; the summary
  behind the returned reference is the value of \<open>calculate_long_short_ratio\<close> on the
  exchange name and the positions, so it depends on nothing else; every object that
  existed before the call, the list and its positions among them, is unchanged (the
  heap only grew); and a run from any heap that holds the same exchange name and the
  same positions, the heap left by this run included, yields the same summary in every
  field.
\<close>

theorem aggregation_pure:
  assumes "read_inputs h self_a positions_a = Some (ex, ps)"
  shows "\<exists>r h'. calculate_h h self_a positions_a = Inr (r, h')
       \<and> read_summary h' r = Some (calculate_long_short_ratio \<lparr> exchange_name = ex, exchange = () \<rparr> ps)
       \<and> take (length h) h' = h
       \<and> read_inputs h' self_a positions_a = Some (ex, ps)
       \<and> (\<forall>h2 self2 positions2. read_inputs h2 self2 positions2 = Some (ex, ps) \<longrightarrow>
            (\<exists>r2 h2'. calculate_h h2 self2 positions2 = Inr (r2, h2')
               \<and> read_summary h2' r2 = read_summary h' r))"
proof -
  from calculate_h_refines [OF assms] obtain r h' where
    a: "calculate_h h self_a positions_a = Inr (r, h')"
       "read_summary h' r = Some (calculate_long_short_ratio \<lparr> exchange_name = ex, exchange = () \<rparr> ps)"
       "take (length h) h' = h"
       "read_inputs h' self_a positions_a = Some (ex, ps)"
    by blast
  have "\<exists>r2 h2'. calculate_h h2 self2 positions2 = Inr (r2, h2') \<and> read_summary h2' r2 = read_summary h' r"
    if "read_inputs h2 self2 positions2 = Some (ex, ps)" for h2 self2 positions2
    using calculate_h_refines [OF that] a(2) by auto
  with a show ?thesis by blast
qed

theorem aggregation_pure_witness:
  "read_inputs heap_a 0 3 = Some (''bybit'', [eth_long, sol_short, eth_long])
   \<and> read_inputs heap_b 1 0 = Some (''bybit'', [eth_long, sol_short, eth_long])
   \<and> (\<exists>r h'. calculate_h heap_a 0 3 = Inr (r, h')
         \<and> read_summary h' r =
             Some (calculate_long_short_ratio \<lparr> exchange_name = ''bybit'', exchange = () \<rparr>
                     [eth_long, sol_short, eth_long])
         \<and> take (length heap_a) h' = heap_a
         \<and> (\<exists>r2 h2'. calculate_h heap_b 1 0 = Inr (r2, h2')
               \<and> read_summary h2' r2 = read_summary h' r)
         \<and> (\<exists>r3 h3. calculate_h h' 0 3 = Inr (r3, h3)
               \<and> read_summary h3 r3 = read_summary h' r))"
proof -
  have a: "read_inputs heap_a 0 3 = Some (''bybit'', [eth_long, sol_short, eth_long])"
    by (simp add: read_inputs_def heap_a_def lookup_def)
  have b: "read_inputs heap_b 1 0 = Some (''bybit'', [eth_long, sol_short, eth_long])"
    by (simp add: read_inputs_def heap_b_def lookup_def)
  from aggregation_pure [OF a] b show ?thesis
    using a by blast
qed

lemma heap_a_run:
  "calculate_h heap_a 0 3 =
     Inr (6, heap_a @ [ODict [(''ETH/USDT:USDT'', 306), (''SOL/USDT:USDT'', - 100)],
                       ODict [(''ETH/USDT:USDT'', 6), (''SOL/USDT:USDT'', 0)],
                       OSummary 306 100 306 100 (Ratio (153 / 50)) 4 5 6])"
  by (simp add: calculate_h_def alloc_def heap_a_def get_list_def get_dict_def get_pos_def
        get_exchange_name_def lookup_def and_then_def accumulate_h_def dict_setitem_def
        dict_iadd_item_def store_obj_def build_summary_def eth_long_def sol_short_def
        notional_value_def excluded_tickers_def dict_has_def dict_set_def dict_iadd_def
        raw_step_def effective_step_def weight_def ratio_of_def Let_def)

section \<open>Properties of the symbol display\<close>

text \<open>
  Where the base of a symbol holds no colon, as in \<^verbatim>\<open>ETH/USDT:USDT\<close>, the function
  removes exactly the settlement suffix.
\<close>

lemma py_in_settle: "py_in (CHR '':'' # cs) (b @ CHR '':'' # cs)"
  by (induction b) auto

lemma split_first_settle:
  "CHR '':'' \<notin> set b \<Longrightarrow> split_first (CHR '':'' # cs) (b @ CHR '':'' # cs) = b"
  by (induction b) auto

lemma not_py_in_usdt_usdc:
  "CHR '':'' \<notin> set b \<Longrightarrow> \<not> py_in '':USDT'' (b @ '':USDC'')"
  by (induction b) auto

lemma clean_symbol_settle_suffix:
  assumes "CHR '':'' \<notin> set b"
  shows "clean_symbol (b @ '':USDT'') = b" and "clean_symbol (b @ '':USDC'') = b"
  using assms py_in_settle [of "''USDT''" b] py_in_settle [of "''USDC''" b]
    split_first_settle [of b "''USDT''"] split_first_settle [of b "''USDC''"]
    not_py_in_usdt_usdc [of b]
  by (simp_all add: clean_symbol_def)

text \<open>
  Claim C7. The function cuts a symbol at the first \<^verbatim>\<open>:USDT\<close> (else at the first
  \<^verbatim>\<open>:USDC\<close>) wherever it stands, not only when it ends the symbol. The dated contract
  \<^verbatim>\<open>BTC/USDT:USDT-231229\<close> carries no trailing suffix and is displayed as
  \<^verbatim>\<open>BTC/USDT\<close>, the same text as the perpetual \<^verbatim>\<open>BTC/USDT:USDT\<close>. The keys of the
  mapping stay the unstripped symbols.
\<close>

theorem clean_symbol_dated_contract:
  "clean_symbol ''BTC/USDT:USDT-231229'' = ''BTC/USDT''
   \<and> clean_symbol ''BTC/USDT:USDT'' = ''BTC/USDT''
   \<and> map fst (symbol_positions (calculate_long_short_ratio binance_calc [dated_btc_long, btc_long])) =
       [''BTC/USDT:USDT-231229'', ''BTC/USDT:USDT'']
   \<and> map clean_symbol (map fst (symbol_positions (calculate_long_short_ratio binance_calc [dated_btc_long, btc_long]))) =
       [''BTC/USDT'', ''BTC/USDT'']"
  by (simp add: clean_symbol_def calc_eval binance_calc_def dated_btc_long_def btc_long_def)

section \<open>Properties of the exchange adapter\<close>

text \<open>Every exception that reading a payload can raise is an \<^verbatim>\<open>Exception\<close>.\<close>

lemma py_get_exn: "py_get obj k d = Inl e \<Longrightarrow> is_Exception e"
  by (cases obj) auto

lemma py_index0_exn: "py_index0 obj = Inl e \<Longrightarrow> is_Exception e"
  by (induction obj rule: py_index0.induct) auto

lemma py_float_exn: "py_float parse obj = Inl e \<Longrightarrow> is_Exception e"
  by (cases obj) (auto split: option.splits)

lemma float_or_zero_exn: "float_or_zero parse obj = Inl e \<Longrightarrow> is_Exception e"
  by (auto simp: float_or_zero_def split: if_splits dest: py_float_exn)

lemma and_then_Inl:
  "and_then r f = Inl e \<longleftrightarrow> r = Inl e \<or> (\<exists>v. r = Inr v \<and> f v = Inl e)"
  by (cases r) (auto simp: and_then_def)

lemma open_positions_exn: "open_positions ps = Inl e \<Longrightarrow> is_Exception e"
  by (induction ps arbitrary: e) (auto simp: and_then_Inl split: option.splits)

lemma binance_balance_exn: "binance_balance parse b = Inl e \<Longrightarrow> is_Exception e"
  unfolding binance_balance_def and_then_Inl
  by (auto dest: py_get_exn float_or_zero_exn)

lemma bybit_field_exn: "bybit_field b k = Inl e \<Longrightarrow> is_Exception e"
  unfolding bybit_field_def and_then_Inl
  by (auto dest: py_get_exn py_index0_exn)

lemma bybit_balance_exn: "bybit_balance parse b = Inl e \<Longrightarrow> is_Exception e"
  unfolding bybit_balance_def and_then_Inl
  by (auto dest: bybit_field_exn float_or_zero_exn)

lemma bitget_balance_total: "\<exists>r. bitget_balance parse b = Inr r"
  by (auto simp: bitget_balance_def split: sum.splits option.splits)

lemma extract_balance_exn: "extract_balance parse ex b = Inl e \<Longrightarrow> is_Exception e"
  using bitget_balance_total [of parse b]
  by (auto simp: extract_balance_def split: if_splits dest: binance_balance_exn bybit_balance_exn)

text \<open>
  The Bitget branch has a handler of its own: whatever reading the payload raises, and
  also when no USDT entry is found, the zero-filled summary is returned. An exchange
  name outside the three gets it as well.
\<close>

lemma bitget_degrades:
  "(exchange_name self = ''bitget'' \<and> api_fetch_balance (exchange self) = Inr balance
        \<and> bitget_try parse balance = Inl e \<longrightarrow>
        fetch_account_balance parse self = Inr zero_balance)
   \<and> (exchange_name self = ''bitget'' \<and> api_fetch_balance (exchange self) = Inr balance
        \<and> bitget_try parse balance = Inr None \<longrightarrow>
        fetch_account_balance parse self = Inr zero_balance)
   \<and> (exchange_name self \<noteq> ''binance'' \<and> exchange_name self \<noteq> ''bybit''
        \<and> exchange_name self \<noteq> ''bitget'' \<and> api_fetch_balance (exchange self) = Inr balance \<longrightarrow>
        fetch_account_balance parse self = Inr zero_balance)"
  by (simp add: fetch_account_balance_def fetch_account_balance_body_def and_then_def
        except_Exception_def extract_balance_def bitget_balance_def)

text \<open>
  Claim C8. When the position fetch raises an \<^verbatim>\<open>Exception\<close>, or its payload makes
  the filter raise, \<^verbatim>\<open>fetch_positions\<close> returns the empty list; when the balance fetch
  raises an \<^verbatim>\<open>Exception\<close>, or reading its payload raises, \<^verbatim>\<open>fetch_account_balance\<close>
  returns the zero-filled summary. Reading the payload raises where \<open>extract_balance\<close>
  does (Binance, Bybit) and, on Bitget, where the body of the inner \<^verbatim>\<open>try\<close> does; a
  Bitget payload without a USDT entry and an unknown exchange name give the zero-filled
  summary too. Neither function raises as long as the client raises nothing outside
  \<^verbatim>\<open>Exception\<close>.
\<close>

theorem adapter_failures_degrade:
  "(api_fetch_positions (exchange self) = Inl e \<and> is_Exception e \<longrightarrow> fetch_positions self = Inr [])
   \<and> (api_fetch_positions (exchange self) = Inr ps \<and> open_positions ps = Inl e \<longrightarrow>
        fetch_positions self = Inr [])
   \<and> ((\<forall>e'. api_fetch_positions (exchange self) = Inl e' \<longrightarrow> is_Exception e') \<longrightarrow>
        (\<exists>kept. fetch_positions self = Inr kept))
   \<and> (api_fetch_balance (exchange self) = Inl e \<and> is_Exception e \<longrightarrow>
        fetch_account_balance parse self = Inr zero_balance)
   \<and> (api_fetch_balance (exchange self) = Inr balance
        \<and> extract_balance parse (exchange_name self) balance = Inl e \<longrightarrow>
        fetch_account_balance parse self = Inr zero_balance)
   \<and> ((\<forall>e'. api_fetch_balance (exchange self) = Inl e' \<longrightarrow> is_Exception e') \<longrightarrow>
        (\<exists>summary. fetch_account_balance parse self = Inr summary))
   \<and> (exchange_name self = ''bitget'' \<and> api_fetch_balance (exchange self) = Inr balance
        \<and> bitget_try parse balance = Inl e \<longrightarrow>
        fetch_account_balance parse self = Inr zero_balance)
   \<and> (exchange_name self = ''bitget'' \<and> api_fetch_balance (exchange self) = Inr balance
        \<and> bitget_try parse balance = Inr None \<longrightarrow>
        fetch_account_balance parse self = Inr zero_balance)
   \<and> (exchange_name self \<noteq> ''binance'' \<and> exchange_name self \<noteq> ''bybit''
        \<and> exchange_name self \<noteq> ''bitget'' \<and> api_fetch_balance (exchange self) = Inr balance \<longrightarrow>
        fetch_account_balance parse self = Inr zero_balance)"
proof -
  have p1: "api_fetch_positions (exchange self) = Inl e \<and> is_Exception e \<longrightarrow> fetch_positions self = Inr []"
    by (simp add: fetch_positions_def fetch_positions_body_def and_then_def except_Exception_def)
  have p2: "api_fetch_positions (exchange self) = Inr ps \<and> open_positions ps = Inl e \<longrightarrow>
        fetch_positions self = Inr []"
    using open_positions_exn [of ps e]
    by (auto simp: fetch_positions_def fetch_positions_body_def and_then_def except_Exception_def)
  have p3: "(\<forall>e'. api_fetch_positions (exchange self) = Inl e' \<longrightarrow> is_Exception e') \<longrightarrow>
        (\<exists>kept. fetch_positions self = Inr kept)"
  proof
    assume h: "\<forall>e'. api_fetch_positions (exchange self) = Inl e' \<longrightarrow> is_Exception e'"
    have "is_Exception x" if "fetch_positions_body self = Inl x" for x
      using that h open_positions_exn
      by (auto simp: fetch_positions_body_def and_then_Inl)
    then show "\<exists>kept. fetch_positions self = Inr kept"
      by (cases "fetch_positions_body self") (simp_all add: fetch_positions_def except_Exception_def)
  qed
  have b1: "api_fetch_balance (exchange self) = Inl e \<and> is_Exception e \<longrightarrow>
        fetch_account_balance parse self = Inr zero_balance"
    by (simp add: fetch_account_balance_def fetch_account_balance_body_def and_then_def except_Exception_def)
  have b2: "api_fetch_balance (exchange self) = Inr balance
        \<and> extract_balance parse (exchange_name self) balance = Inl e \<longrightarrow>
        fetch_account_balance parse self = Inr zero_balance"
    using extract_balance_exn [of parse "exchange_name self" balance e]
    by (auto simp: fetch_account_balance_def fetch_account_balance_body_def and_then_def except_Exception_def)
  have b3: "(\<forall>e'. api_fetch_balance (exchange self) = Inl e' \<longrightarrow> is_Exception e') \<longrightarrow>
        (\<exists>summary. fetch_account_balance parse self = Inr summary)"
  proof
    assume h: "\<forall>e'. api_fetch_balance (exchange self) = Inl e' \<longrightarrow> is_Exception e'"
    have "is_Exception x" if "fetch_account_balance_body parse self = Inl x" for x
      using that h extract_balance_exn
      by (auto simp: fetch_account_balance_body_def and_then_Inl)
    then show "\<exists>summary. fetch_account_balance parse self = Inr summary"
      by (cases "fetch_account_balance_body parse self")
         (simp_all add: fetch_account_balance_def except_Exception_def)
  qed
  from p1 p2 p3 b1 b2 b3 bitget_degrades [of self balance parse e] show ?thesis
    by (intro conjI) blast+
qed

theorem adapter_failures_degrade_witness:
  "api_fetch_positions failing_client = Inl (OtherException ''NetworkError'')
   \<and> fetch_positions \<lparr> exchange_name = ''binance'', exchange = failing_client \<rparr> = Inr []
   \<and> fetch_account_balance no_parse \<lparr> exchange_name = ''binance'', exchange = failing_client \<rparr> = Inr zero_balance
   \<and> open_positions [eth_long, sol_short \<lparr> contracts := None \<rparr>] = Inl (OtherException ''TypeError'')
   \<and> fetch_positions \<lparr> exchange_name = ''bybit'', exchange = malformed_client \<rparr> = Inr []
   \<and> extract_balance no_parse ''bybit''
         (PDict [(''info'', PDict [(''result'', PDict [(''list'', PList [])])])]) = Inl (OtherException ''IndexError'')
   \<and> fetch_account_balance no_parse \<lparr> exchange_name = ''bybit'', exchange = malformed_client \<rparr> = Inr zero_balance
   \<and> bitget_try no_parse (PDict [(''info'', PList [PInt 5])]) = Inl (OtherException ''AttributeError'')
   \<and> fetch_account_balance no_parse \<lparr> exchange_name = ''bitget'', exchange = bitget_bad_entry \<rparr> = Inr zero_balance
   \<and> bitget_try no_parse
         (PDict [(''info'', PList [PDict [(''marginCoin'', PStr ''USDT''), (''available'', PStr ''n/a'')]])]) =
       Inl (OtherException ''ValueError'')
   \<and> fetch_account_balance no_parse \<lparr> exchange_name = ''bitget'', exchange = bitget_bad_number \<rparr> = Inr zero_balance
   \<and> bitget_try no_parse
         (PDict [(''info'', PList [PDict [(''marginCoin'', PStr ''USDC''), (''available'', PFloat 12)]])]) =
       Inr None
   \<and> fetch_account_balance no_parse \<lparr> exchange_name = ''bitget'', exchange = bitget_no_usdt \<rparr> = Inr zero_balance"
  using adapter_failures_degrade [of "\<lparr> exchange_name = ''bitget'', exchange = bitget_bad_entry \<rparr>"
          "OtherException ''AttributeError''" "[]" no_parse "PDict [(''info'', PList [PInt 5])]"]
        adapter_failures_degrade [of "\<lparr> exchange_name = ''bitget'', exchange = bitget_bad_number \<rparr>"
          "OtherException ''ValueError''" "[]" no_parse
          "PDict [(''info'', PList [PDict [(''marginCoin'', PStr ''USDT''), (''available'', PStr ''n/a'')]])]"]
        adapter_failures_degrade [of "\<lparr> exchange_name = ''bitget'', exchange = bitget_no_usdt \<rparr>"
          "OtherException ''ValueError''" "[]" no_parse
          "PDict [(''info'', PList [PDict [(''marginCoin'', PStr ''USDC''), (''available'', PFloat 12)]])]"]
        adapter_failures_degrade [of "\<lparr> exchange_name = ''binance'', exchange = failing_client \<rparr>"
          "OtherException ''NetworkError''" "[]" no_parse PNone]
        adapter_failures_degrade [of "\<lparr> exchange_name = ''binance'', exchange = failing_client \<rparr>"
          "OtherException ''AuthenticationError''" "[]" no_parse PNone]
        adapter_failures_degrade [of "\<lparr> exchange_name = ''bybit'', exchange = malformed_client \<rparr>"
          "OtherException ''TypeError''" "[eth_long, sol_short \<lparr> contracts := None \<rparr>]" no_parse PNone]
        adapter_failures_degrade [of "\<lparr> exchange_name = ''bybit'', exchange = malformed_client \<rparr>"
          "OtherException ''IndexError''" "[]" no_parse
          "PDict [(''info'', PDict [(''result'', PDict [(''list'', PList [])])])]"]
  by (simp add: failing_client_def malformed_client_def eth_long_def sol_short_def and_then_def
        extract_balance_def bybit_balance_def bybit_field_def bitget_try_def
        bitget_bad_entry_def bitget_bad_number_def bitget_no_usdt_def no_parse_def)

section \<open>Properties of the notifier\<close>

text \<open>
  A response with a 4xx or 5xx status is never retried, whatever its body. A rate-limit
  body that arrives with another status is retried once after the delay it names. No
  \<^verbatim>\<open>Exception\<close> leaves the function.
\<close>

lemma http_error_never_retried:
  assumes "net 0 = Inr r" and "400 \<le> status_code r" and "status_code r < 600"
  shows "send_telegram_message net m = ([Post m, LogError], Inr ())"
  using assms by (simp add: notifier_eval)

lemma retry_when_status_ok:
  assumes "net 0 = Inr r" and "\<not> (400 \<le> status_code r \<and> status_code r < 600)"
    and "body_json r = Some js"
    and "py_get js ''ok'' PNone = Inr ok" and "\<not> truthy ok"
    and "py_get js ''error_code'' PNone = Inr code" and "py_eq_int code 429"
    and "py_get js ''parameters'' (PDict []) = Inr ps"
    and "py_get ps ''retry_after'' PNone = Inr ra"
    and "valid_retry_after ra = Some n"
  shows "sleeps (fst (send_telegram_message net m)) = [n]
       \<and> posts (fst (send_telegram_message net m)) = 2"
  using assms
  by (auto simp: notifier_eval split: sum.splits py_exception.splits)

lemma post_json_exn:
  assumes "\<forall>i e. net i = Inl e \<longrightarrow> is_Exception e" and "post_json net i = Inl e"
  shows "is_Exception e"
  using assms
  by (auto simp: post_json_def and_then_Inl raise_for_status_def response_json_def
      split: if_splits option.splits)

lemma retry_once_exn:
  assumes "\<forall>i e. net i = Inl e \<longrightarrow> is_Exception e" and "retry_once net m n = (tr, Inl e)"
  shows "is_Exception e"
proof (cases "post_json net 1")
  case (Inl x)
  with assms(2) have "x = e" by (simp add: retry_once_def)
  with Inl post_json_exn [OF assms(1)] show ?thesis by blast
next
  case (Inr js)
  with assms(2) have "py_get js ''ok'' PNone = Inl e"
    by (simp add: retry_once_def split: sum.splits)
  then show ?thesis by (rule py_get_exn)
qed

lemma not_ok_exn:
  assumes "\<forall>i e. net i = Inl e \<longrightarrow> is_Exception e" and "not_ok net m js = (tr, Inl e)"
  shows "is_Exception e"
  using assms(2) retry_once_exn [OF assms(1)]
  by (auto simp: not_ok_def and_then_Inl split: sum.splits if_splits option.splits prod.splits
      dest: py_get_exn)

lemma send_body_exn:
  assumes "\<forall>i e. net i = Inl e \<longrightarrow> is_Exception e" and "send_body net m = (tr, Inl e)"
  shows "is_Exception e"
  using assms(2) post_json_exn [OF assms(1)] not_ok_exn [OF assms(1)]
  by (auto simp: send_body_def split: sum.splits if_splits prod.splits dest: py_get_exn)

lemma send_never_raises:
  assumes "\<forall>i e. net i = Inl e \<longrightarrow> is_Exception e"
  shows "snd (send_telegram_message net m) = Inr ()"
proof (cases "send_body net m")
  case (Pair tr r)
  show ?thesis
  proof (cases r)
    case (Inl e)
    with Pair have "is_Exception e" using send_body_exn [OF assms] by blast
    with Pair Inl show ?thesis
      by (cases e) (simp_all add: send_telegram_message_def)
  next
    case (Inr u)
    with Pair show ?thesis by (simp add: send_telegram_message_def)
  qed
qed

text \<open>
  Claim C9. Telegram's rate-limit answer arrives with HTTP status 429, so
  \<^verbatim>\<open>raise_for_status()\<close> raises before the body is read: the function posts once,
  logs the error, and neither sleeps nor retries. The same body under status 200 is
  retried once after 5 seconds.
\<close>

theorem rate_limit_http_429_not_retried:
  "send_telegram_message telegram_429 ''report'' = ([Post ''report'', LogError], Inr ())
   \<and> posts (fst (send_telegram_message telegram_429 ''report'')) = 1
   \<and> sleeps (fst (send_telegram_message telegram_429 ''report'')) = []
   \<and> send_telegram_message rate_limit_in_200 ''report'' =
       ([Post ''report'', LogInfo, LogError, LogWarning, Sleep 5, Post ''report'', LogInfo, LogInfo], Inr ())"
  by (simp add: notifier_eval telegram_429_def rate_limit_in_200_def rate_limit_body_def
        ok_response_def)

end
